theory Spec2Isabelle
  imports Complex_Main "HOL-Library.Word"
begin

unbundle bit_operations_syntax

section \<open>Conventions of the embedding\<close>

text \<open>
  The audio pipeline of the daemon is embedded function by function.

  \<^item> Go's \<open>int\<close> (64 bit) is \<open>int\<close>: every value of that type below is a slice length,
    an index into a slice or a small multiple of one, far from \<open>2 ^ 63\<close>.
  \<^item> Go's \<open>uint32\<close> is \<open>32 word\<close>, where the capture callback computes byte offsets with it.
  \<^item> Go's \<open>float32\<close> and \<open>float64\<close> arithmetic is idealised as exact arithmetic on
    \<open>real\<close>: rounding, infinities and NaN are not modelled. The capture callback, which
    only moves bit patterns, keeps a \<open>float32\<close> as its 32 bits.
  \<^item> A run-time panic of Go is a value \<open>Inl p\<close> of the result type \<open>panic + 'a\<close>.
\<close>

datatype panic =
    IndexOutOfRange
  | SliceBoundsOutOfRange
  | IntegerDivideByZero
  | MakeLenOutOfRange

definition bindP :: "panic + 'a \<Rightarrow> ('a \<Rightarrow> panic + 'b) \<Rightarrow> panic + 'b" where
  "bindP m f = (case m of Inl e \<Rightarrow> Inl e | Inr x \<Rightarrow> f x)"

text \<open>Integer division and remainder of Go truncate towards zero and panic on a zero divisor.\<close>

definition go_quo :: "int \<Rightarrow> int \<Rightarrow> panic + int" where
  "go_quo a b = (if b = 0 then Inl IntegerDivideByZero else Inr (sgn a * sgn b * (\<bar>a\<bar> div \<bar>b\<bar>)))"

definition go_rem :: "int \<Rightarrow> int \<Rightarrow> panic + int" where
  "go_rem a b = (if b = 0 then Inl IntegerDivideByZero else Inr (sgn a * (\<bar>a\<bar> mod \<bar>b\<bar>)))"

text \<open>\<open>xs[i]\<close> as a read and as an assignment, and the slice expression \<open>xs[lo:hi]\<close>
  (every slice below has its capacity equal to its length or is sliced within its length).\<close>

definition go_index :: "'a list \<Rightarrow> int \<Rightarrow> panic + 'a" where
  "go_index xs i = (if 0 \<le> i \<and> i < int (length xs) then Inr (xs ! nat i) else Inl IndexOutOfRange)"

definition go_store :: "'a list \<Rightarrow> int \<Rightarrow> 'a \<Rightarrow> panic + 'a list" where
  "go_store xs i v = (if 0 \<le> i \<and> i < int (length xs) then Inr (xs[nat i := v]) else Inl IndexOutOfRange)"

definition go_slice :: "'a list \<Rightarrow> int \<Rightarrow> int \<Rightarrow> panic + 'a list" where
  "go_slice xs lo hi =
     (if 0 \<le> lo \<and> lo \<le> hi \<and> hi \<le> int (length xs)
      then Inr (take (nat (hi - lo)) (drop (nat lo) xs))
      else Inl SliceBoundsOutOfRange)"

text \<open>The conversion \<open>int(x)\<close> of a float discards the fraction (truncation towards zero).\<close>

definition go_int :: "real \<Rightarrow> int" where
  "go_int x = (if 0 \<le> x then \<lfloor>x\<rfloor> else \<lceil>x\<rceil>)"

section \<open>Voice activity detection\<close>

record VADConfig =
  FrameSize :: int
  Overlap :: int
  EnergyThreshold :: real
  ZcrThreshold :: real
  VoiceThreshold :: real

definition DefaultVADConfig :: VADConfig where
  "DefaultVADConfig =
     \<lparr>FrameSize = 512, Overlap = 256, EnergyThreshold = 1 / 100, ZcrThreshold = 1 / 10,
      VoiceThreshold = 1 / 2\<rparr>"

text \<open>\<open>calculateEnergy\<close>: the sum of the squares, in the order of the loop, over the length.\<close>

definition calculateEnergy :: "real list \<Rightarrow> real" where
  "calculateEnergy audio =
     foldl (\<lambda>energy sample. energy + sample * sample) 0 audio / real (length audio)"

text \<open>\<open>calculateZCR\<close>: the loop over \<open>i = 1 .. len - 1\<close> compares \<open>audio[i-1]\<close> with \<open>audio[i]\<close>.\<close>

fun crossings :: "real list \<Rightarrow> nat" where
  "crossings (a # b # rest) =
     (if (a \<ge> 0 \<and> b < 0) \<or> (a < 0 \<and> b \<ge> 0) then 1 else 0) + crossings (b # rest)"
| "crossings _ = 0"

definition calculateZCR :: "real list \<Rightarrow> real" where
  "calculateZCR audio =
     (if length audio < 2 then 0
      else real (crossings audio) / real (length audio - 1))"

text \<open>\<open>calculateSpectralCentroid\<close>: the loop carries the index \<open>i\<close>, \<open>weightedSum\<close> and
  \<open>magnitudeSum\<close>.\<close>

fun centroid_sums :: "real list \<Rightarrow> nat \<Rightarrow> real \<Rightarrow> real \<Rightarrow> real \<times> real" where
  "centroid_sums [] i weightedSum magnitudeSum = (weightedSum, magnitudeSum)"
| "centroid_sums (sample # rest) i weightedSum magnitudeSum =
     centroid_sums rest (Suc i) (weightedSum + \<bar>sample\<bar> * real i) (magnitudeSum + \<bar>sample\<bar>)"

definition calculateSpectralCentroid :: "real list \<Rightarrow> real" where
  "calculateSpectralCentroid audio =
     (if length audio = 0 then 0
      else (case centroid_sums audio 0 0 0 of
              (weightedSum, magnitudeSum) \<Rightarrow>
                if magnitudeSum = 0 then 0 else weightedSum / magnitudeSum))"

text \<open>The three scores and the combined probability are local variables of
  \<open>VADProcessor.ProcessFrame\<close>; each is a definition here so that it can be named.\<close>

definition energyScore :: "VADConfig \<Rightarrow> real list \<Rightarrow> real" where
  "energyScore cfg audio =
     (let energy = calculateEnergy audio
      in if energy > EnergyThreshold cfg
         then min (energy / EnergyThreshold cfg) 2 / 2
         else 0)"

definition zcrScore :: "VADConfig \<Rightarrow> real list \<Rightarrow> real" where
  "zcrScore cfg audio =
     (let zcr = calculateZCR audio
      in if zcr < ZcrThreshold cfg then 1 - zcr / ZcrThreshold cfg else 0)"

definition spectralScore :: "real list \<Rightarrow> real" where
  "spectralScore audio =
     (let s = calculateSpectralCentroid audio / 2000
      in if s > 1 then 1 else s)"

definition voiceProbability :: "VADConfig \<Rightarrow> real list \<Rightarrow> real" where
  "voiceProbability cfg audio =
     energyScore cfg audio * (1 / 2) + zcrScore cfg audio * (3 / 10) + spectralScore audio * (1 / 5)"

definition VADProcessor_ProcessFrame :: "VADConfig \<Rightarrow> real list \<Rightarrow> bool" where
  "VADProcessor_ProcessFrame cfg audio =
     (if int (length audio) < FrameSize cfg then False
      else voiceProbability cfg audio > VoiceThreshold cfg)"

text \<open>\<open>IsVoiceDetected\<close>: the loop over the frame indices \<open>0 .. frameCount - 1\<close>.\<close>

fun classify_frames :: "VADConfig \<Rightarrow> real list \<Rightarrow> int list \<Rightarrow> bool list \<Rightarrow> panic + bool list" where
  "classify_frames cfg audio [] voiceActivity = Inr voiceActivity"
| "classify_frames cfg audio (i # rest) voiceActivity =
     (let start = i * Overlap cfg;
          end0 = start + FrameSize cfg;
          endi = (if end0 > int (length audio) then int (length audio) else end0)
      in bindP (go_slice audio start endi) (\<lambda>frame.
           if int (length frame) = FrameSize cfg
           then bindP (go_store voiceActivity i (VADProcessor_ProcessFrame cfg frame))
                  (\<lambda>va. classify_frames cfg audio rest va)
           else classify_frames cfg audio rest voiceActivity))"

definition IsVoiceDetected :: "VADConfig \<Rightarrow> real list \<Rightarrow> panic + bool list" where
  "IsVoiceDetected cfg audio =
     (if int (length audio) < FrameSize cfg then Inr []
      else bindP (go_quo (int (length audio) - FrameSize cfg) (Overlap cfg)) (\<lambda>q.
             let frameCount = q + 1
             in if frameCount < 0 then Inl MakeLenOutOfRange
                else classify_frames cfg audio [0 .. frameCount - 1]
                       (replicate (nat frameCount) False)))"

record VoiceSegment =
  Start :: real
  End :: real
  Duration :: real

text \<open>\<open>GetVoiceSegments\<close>: the loop over \<open>voiceActivity\<close> carries \<open>segments\<close>, \<open>inVoice\<close>
  and \<open>segmentStart\<close>.\<close>

fun segments_loop ::
  "real \<Rightarrow> (int \<times> bool) list \<Rightarrow> VoiceSegment list \<Rightarrow> bool \<Rightarrow> int \<Rightarrow> VoiceSegment list \<times> bool \<times> int"
where
  "segments_loop d [] segments inVoice segmentStart = (segments, inVoice, segmentStart)"
| "segments_loop d ((i, isVoice) # rest) segments inVoice segmentStart =
     (if isVoice \<and> \<not> inVoice then segments_loop d rest segments True i
      else if \<not> isVoice \<and> inVoice
      then segments_loop d rest
             (segments @ [\<lparr>Start = real_of_int segmentStart * d, End = real_of_int i * d,
                           Duration = real_of_int (i - segmentStart) * d\<rparr>])
             False segmentStart
      else segments_loop d rest segments inVoice segmentStart)"

definition GetVoiceSegments :: "VADConfig \<Rightarrow> real list \<Rightarrow> panic + VoiceSegment list" where
  "GetVoiceSegments cfg audio =
     bindP (IsVoiceDetected cfg audio) (\<lambda>voiceActivity.
       if length voiceActivity = 0 then Inr []
       else
         let frameDurationMs = real_of_int (Overlap cfg) / 16000 * 1000 in
         (case segments_loop frameDurationMs
                 (zip (map int [0 ..< length voiceActivity]) voiceActivity) [] False 0 of
            (segments, inVoice, segmentStart) \<Rightarrow>
              Inr (if inVoice
                   then segments @
                        [\<lparr>Start = real_of_int segmentStart * frameDurationMs,
                          End = real (length voiceActivity) * frameDurationMs,
                          Duration = real_of_int (int (length voiceActivity) - segmentStart)
                                       * frameDurationMs\<rparr>]
                   else segments)))"

section \<open>Echo cancellation\<close>

record AECConfig =
  FilterLength :: int
  StepSize :: real
  LeakageFactor :: real
  EchoSuppression :: real

definition DefaultAECConfig :: AECConfig where
  "DefaultAECConfig =
     \<lparr>FilterLength = 1024, StepSize = 5 / 100, LeakageFactor = 999 / 1000,
      EchoSuppression = 7 / 10\<rparr>"

text \<open>The field \<open>filter\<close> of the source is \<open>filter_coeffs\<close> here.\<close>

record AECProcessor =
  config :: AECConfig
  filter_coeffs :: "real list"
  farEndBuffer :: "real list"
  farEndIndex :: int

definition NewAECProcessor :: "AECConfig \<Rightarrow> panic + AECProcessor" where
  "NewAECProcessor c =
     (if FilterLength c < 0 then Inl MakeLenOutOfRange
      else Inr \<lparr>config = c,
                filter_coeffs = replicate (nat (FilterLength c)) 0,
                farEndBuffer = replicate (nat (FilterLength c)) 0,
                farEndIndex = 0\<rparr>)"

text \<open>The constant \<open>1e-10\<close> that guards the division.\<close>

definition aec_epsilon :: real where
  "aec_epsilon = 1 / 10 ^ 10"

definition bufferIndex :: "AECProcessor \<Rightarrow> int \<Rightarrow> panic + int" where
  "bufferIndex aec j =
     go_rem (farEndIndex aec - 1 - j + FilterLength (config aec)) (FilterLength (config aec))"

text \<open>The three inner loops over \<open>j = 0 .. FilterLength - 1\<close> of one sample
  (the local variable \<open>power\<close> of the source is \<open>pwr\<close>).\<close>

fun echo_loop :: "AECProcessor \<Rightarrow> int list \<Rightarrow> real \<Rightarrow> panic + real" where
  "echo_loop aec [] echoEstimate = Inr echoEstimate"
| "echo_loop aec (j # rest) echoEstimate =
     bindP (bufferIndex aec j) (\<lambda>b.
     bindP (go_index (filter_coeffs aec) j) (\<lambda>w.
     bindP (go_index (farEndBuffer aec) b) (\<lambda>r.
       echo_loop aec rest (echoEstimate + w * r))))"

fun power_loop :: "AECProcessor \<Rightarrow> int list \<Rightarrow> real \<Rightarrow> panic + real" where
  "power_loop aec [] pwr = Inr pwr"
| "power_loop aec (j # rest) pwr =
     bindP (bufferIndex aec j) (\<lambda>b.
     bindP (go_index (farEndBuffer aec) b) (\<lambda>r.
       power_loop aec rest (pwr + r * r)))"

fun update_loop :: "AECProcessor \<Rightarrow> real \<Rightarrow> real \<Rightarrow> int list \<Rightarrow> panic + AECProcessor" where
  "update_loop aec normalizedStepSize errorSignal [] = Inr aec"
| "update_loop aec normalizedStepSize errorSignal (j # rest) =
     bindP (bufferIndex aec j) (\<lambda>b.
     bindP (go_index (filter_coeffs aec) j) (\<lambda>w.
     bindP (go_index (farEndBuffer aec) b) (\<lambda>r.
     bindP (go_store (filter_coeffs aec) j
              (LeakageFactor (config aec) * w + normalizedStepSize * errorSignal * r)) (\<lambda>fl.
       update_loop (aec\<lparr>filter_coeffs := fl\<rparr>) normalizedStepSize errorSignal rest))))"

text \<open>The first two statements of the loop body: the far-end sample is stored at
  \<open>farEndIndex\<close> and the index advances.\<close>

definition push_farEnd :: "AECProcessor \<Rightarrow> real \<Rightarrow> panic + AECProcessor" where
  "push_farEnd aec far =
     bindP (go_store (farEndBuffer aec) (farEndIndex aec) far) (\<lambda>buf.
     bindP (go_rem (farEndIndex aec + 1) (FilterLength (config aec))) (\<lambda>idx.
       Inr (aec\<lparr>farEndBuffer := buf, farEndIndex := idx\<rparr>)))"

text \<open>The power of the reference window, as the second inner loop computes it.\<close>

definition window_power :: "AECProcessor \<Rightarrow> panic + real" where
  "window_power aec = power_loop aec [0 .. FilterLength (config aec) - 1] 0"

text \<open>The NLMS update of one sample, guarded by the power of the window.\<close>

definition update_filter :: "AECProcessor \<Rightarrow> real \<Rightarrow> real \<Rightarrow> panic + AECProcessor" where
  "update_filter aec pwr errorSignal =
     (if pwr > aec_epsilon
      then update_loop aec (StepSize (config aec) / (pwr + aec_epsilon)) errorSignal
             [0 .. FilterLength (config aec) - 1]
      else Inr aec)"

text \<open>The body of the loop over the samples of a frame: the new state and \<open>output[i]\<close>.\<close>

definition process_sample :: "AECProcessor \<Rightarrow> real \<Rightarrow> real \<Rightarrow> panic + (AECProcessor \<times> real)" where
  "process_sample aec mic far =
     bindP (push_farEnd aec far) (\<lambda>aec1.
     bindP (echo_loop aec1 [0 .. FilterLength (config aec1) - 1] 0) (\<lambda>echoEstimate.
     let errorSignal = mic - echoEstimate in
     bindP (window_power aec1) (\<lambda>pwr.
     bindP (update_filter aec1 pwr errorSignal) (\<lambda>aec2.
     let suppressedSignal = errorSignal * EchoSuppression (config aec2);
         clipped = (if suppressedSignal > 1 then 1
                    else if suppressedSignal < - 1 then - 1 else suppressedSignal)
     in Inr (aec2, clipped)))))"

text \<open>The loop over \<open>i\<close>; both signals have the same length there, so it runs over the
  pairs \<open>(micSignal[i], farEndSignal[i])\<close> and \<open>output\<close> grows by one sample each time.\<close>

fun frame_loop ::
  "AECProcessor \<Rightarrow> (real \<times> real) list \<Rightarrow> real list \<Rightarrow> panic + (real list \<times> AECProcessor)"
where
  "frame_loop aec [] output = Inr (output, aec)"
| "frame_loop aec ((mic, far) # rest) output =
     bindP (process_sample aec mic far) (\<lambda>(aec', out). frame_loop aec' rest (output @ [out]))"

datatype log_event = WarnSignalLengthMismatch nat nat

text \<open>\<open>AECProcessor.ProcessFrame\<close>: the output, the processor afterwards and the warnings
  printed.\<close>

definition AECProcessor_ProcessFrame ::
  "AECProcessor \<Rightarrow> real list \<Rightarrow> real list \<Rightarrow> panic + (real list \<times> AECProcessor \<times> log_event list)"
where
  "AECProcessor_ProcessFrame aec micSignal farEndSignal =
     (if length micSignal \<noteq> length farEndSignal
      then Inr (micSignal, aec,
                [WarnSignalLengthMismatch (length micSignal) (length farEndSignal)])
      else bindP (frame_loop aec (zip micSignal farEndSignal) [])
             (\<lambda>(output, aec'). Inr (output, aec', [])))"

definition AECProcessor_Reset :: "AECProcessor \<Rightarrow> AECProcessor" where
  "AECProcessor_Reset aec =
     aec\<lparr>filter_coeffs := map (\<lambda>_. 0) (filter_coeffs aec),
         farEndBuffer := map (\<lambda>_. 0) (farEndBuffer aec),
         farEndIndex := 0\<rparr>"

text \<open>The shape of a processor that \<open>NewAECProcessor\<close> builds for a positive filter
  length: both slices have \<open>FilterLength\<close> elements and the write index is inside them.\<close>

definition aec_wf :: "AECProcessor \<Rightarrow> bool" where
  "aec_wf aec =
     (0 < FilterLength (config aec) \<and>
      int (length (filter_coeffs aec)) = FilterLength (config aec) \<and>
      int (length (farEndBuffer aec)) = FilterLength (config aec) \<and>
      0 \<le> farEndIndex aec \<and> farEndIndex aec < FilterLength (config aec))"

text \<open>The clamp \<open>clamp(x, -1, 1)\<close> of the specification's output step.\<close>

definition clamp_unit :: "real \<Rightarrow> real" where
  "clamp_unit x = max (- 1) (min 1 x)"

section \<open>Capture\<close>

text \<open>
  The capture backend is outside the repository. What the code observes of it is a list
  of devices (or a failure to list them), and for each device whether \<open>InitDevice\<close> and
  \<open>Start\<close> succeed; the device taken when no \<open>DeviceID\<close> is set is \<open>defaultDevice\<close>.
  The record \<open>Platform\<close> holds these, the loop-variable semantics of the Go toolchain
  (see \<open>monitorDevices\<close>) and the outcome of switching the model (see \<open>handleCommand\<close>).
\<close>

record DeviceInfo =
  devName :: string
  initOk :: bool
  startOk :: bool

record Platform =
  devicesResult :: "DeviceInfo list option"
  defaultDevice :: DeviceInfo
  sharedLoopVar :: bool
  setModelError :: "string \<Rightarrow> string option"

datatype rec_error =
    AlreadyRecording
  | NotRecording
  | ListDevicesFailed
  | InitDeviceFailed
  | StartDeviceFailed
  | NoMonitorDevice
  | AllMonitorsFailed

text \<open>\<open>strings.ToLower\<close> on the ASCII letters and \<open>strings.Contains\<close>.\<close>

definition lowerChar :: "char \<Rightarrow> char" where
  "lowerChar c =
     (case map_of (zip ''ABCDEFGHIJKLMNOPQRSTUVWXYZ'' ''abcdefghijklmnopqrstuvwxyz'') c of
        Some l \<Rightarrow> l
      | None \<Rightarrow> c)"

definition toLower :: "string \<Rightarrow> string" where
  "toLower s = map lowerChar s"

fun hasPrefix :: "string \<Rightarrow> string \<Rightarrow> bool" where
  "hasPrefix s [] = True"
| "hasPrefix [] (p # ps) = False"
| "hasPrefix (c # cs) (p # ps) = (c = p \<and> hasPrefix cs ps)"

fun contains :: "string \<Rightarrow> string \<Rightarrow> bool" where
  "contains [] substr = (substr = [])"
| "contains (c # cs) substr = (hasPrefix (c # cs) substr \<or> contains cs substr)"

definition containsIgnoreCase :: "string \<Rightarrow> string \<Rightarrow> bool" where
  "containsIgnoreCase haystack needle = contains (toLower haystack) (toLower needle)"

text \<open>A recorder holds its samples; \<open>'s\<close> is the type of a sample: the 32 bits of a
  \<open>float32\<close> where the callback decodes them, \<open>real\<close> where the pipeline computes with
  them. The capacity of the buffer is not modelled.\<close>

record 's Recorder =
  deviceName :: "string option"
  device :: "DeviceInfo option"
  recording :: bool
  samples :: "'s list"

record 's LoopbackRecorder =
  lr_device :: "DeviceInfo option"
  lr_recording :: bool
  lr_samples :: "'s list"

text \<open>The conversion of the callbacks: \<open>i\<close>, \<open>idx\<close> and \<open>uint32(len(pSample))\<close> are
  \<open>uint32\<close>, the four bytes are combined little-endian, and the result is the bit pattern
  that \<open>*(*float32)(unsafe.Pointer(&bits))\<close> reads as a \<open>float32\<close>. A sample that the
  loop does not assign keeps the zero of \<open>make\<close>.\<close>

definition index_u32 :: "8 word list \<Rightarrow> 32 word \<Rightarrow> panic + 8 word" where
  "index_u32 p i = (if unat i < length p then Inr (p ! unat i) else Inl IndexOutOfRange)"

definition decode_sample :: "8 word list \<Rightarrow> 32 word \<Rightarrow> panic + 32 word" where
  "decode_sample pSample i =
     (let idx = i * 4 in
      if idx + 3 < (word_of_nat (length pSample) :: 32 word)
      then bindP (index_u32 pSample idx) (\<lambda>b0.
           bindP (index_u32 pSample (idx + 1)) (\<lambda>b1.
           bindP (index_u32 pSample (idx + 2)) (\<lambda>b2.
           bindP (index_u32 pSample (idx + 3)) (\<lambda>b3.
             Inr ((ucast b0 :: 32 word) OR push_bit 8 (ucast b1) OR push_bit 16 (ucast b2)
                    OR push_bit 24 (ucast b3))))))
      else Inr 0)"

fun decode_loop :: "8 word list \<Rightarrow> nat list \<Rightarrow> panic + 32 word list" where
  "decode_loop pSample [] = Inr []"
| "decode_loop pSample (i # rest) =
     bindP (decode_sample pSample (word_of_nat i)) (\<lambda>s.
     bindP (decode_loop pSample rest) (\<lambda>ss. Inr (s # ss)))"

definition decode_frames :: "8 word list \<Rightarrow> 32 word \<Rightarrow> panic + 32 word list" where
  "decode_frames pSample framecount = decode_loop pSample [0 ..< unat framecount]"

definition Recorder_onRecvFrames ::
  "(32 word) Recorder \<Rightarrow> 8 word list \<Rightarrow> 8 word list \<Rightarrow> 32 word \<Rightarrow> panic + (32 word) Recorder"
where
  "Recorder_onRecvFrames r pSample2 pSample framecount =
     (if \<not> recording r then Inr r
      else bindP (decode_frames pSample framecount)
             (\<lambda>new. Inr (r\<lparr>samples := samples r @ new\<rparr>)))"

definition LoopbackRecorder_onRecvFrames ::
  "(32 word) LoopbackRecorder \<Rightarrow> 8 word list \<Rightarrow> 8 word list \<Rightarrow> 32 word
   \<Rightarrow> panic + (32 word) LoopbackRecorder"
where
  "LoopbackRecorder_onRecvFrames lr pSample2 pSample framecount =
     (if \<not> lr_recording lr then Inr lr
      else bindP (decode_frames pSample framecount)
             (\<lambda>new. Inr (lr\<lparr>lr_samples := lr_samples lr @ new\<rparr>)))"

text \<open>\<open>Recorder.Start\<close>: the error returned (\<open>None\<close> is \<open>nil\<close>) and the recorder
  afterwards.\<close>

definition select_device :: "Platform \<Rightarrow> 's Recorder \<Rightarrow> rec_error + DeviceInfo" where
  "select_device env r =
     (case deviceName r of
        None \<Rightarrow> Inr (defaultDevice env)
      | Some name \<Rightarrow>
          if name = [] then Inr (defaultDevice env)
          else (case devicesResult env of
                  None \<Rightarrow> Inl ListDevicesFailed
                | Some devices \<Rightarrow>
                    (case find (\<lambda>dev. containsIgnoreCase (devName dev) name) devices of
                       Some dev \<Rightarrow> Inr dev
                     | None \<Rightarrow> Inr (defaultDevice env))))"

definition Recorder_Start :: "Platform \<Rightarrow> 's Recorder \<Rightarrow> rec_error option \<times> 's Recorder" where
  "Recorder_Start env r =
     (if recording r then (Some AlreadyRecording, r)
      else
        let r1 = r\<lparr>samples := []\<rparr> in
        (case select_device env r1 of
           Inl e \<Rightarrow> (Some e, r1)
         | Inr dev \<Rightarrow>
             if \<not> initOk dev then (Some InitDeviceFailed, r1\<lparr>device := None\<rparr>)
             else if \<not> startOk dev then (Some StartDeviceFailed, r1\<lparr>device := Some dev\<rparr>)
             else (None, r1\<lparr>device := Some dev, recording := True\<rparr>)))"

definition Recorder_Stop :: "'s Recorder \<Rightarrow> (rec_error + 's list) \<times> 's Recorder" where
  "Recorder_Stop r =
     (if \<not> recording r then (Inl NotRecording, r)
      else (Inr (samples r), r\<lparr>recording := False, device := None\<rparr>))"

text \<open>
  \<open>LoopbackRecorder.Start\<close>, in the latest version of the file. The search for
  \<open>speakerMonitorDevice\<close> by priority only assigns a variable that is never read
  afterwards and is left out. The list \<open>monitorDevices\<close> holds \<open>&dev\<close> for the range
  variable \<open>dev\<close>: before Go 1.22 that is one variable for the whole loop, so every entry
  points to the device listed last; from Go 1.22 on each iteration has its own variable.
  The repository asks for "Go 1.21+", so the semantics is the field \<open>sharedLoopVar\<close> of
  the platform.
\<close>

definition isMonitorDevice :: "DeviceInfo \<Rightarrow> bool" where
  "isMonitorDevice dev =
     (let devNameLower = toLower (devName dev)
      in contains devNameLower ''monitor'' \<and> \<not> contains devNameLower ''microphone'')"

definition monitorDevices :: "bool \<Rightarrow> DeviceInfo list \<Rightarrow> DeviceInfo list" where
  "monitorDevices shared devices =
     (let found = filter isMonitorDevice devices
      in if shared then map (\<lambda>_. last devices) found else found)"

text \<open>The loop that tries each monitor device: it returns \<open>nil\<close> at the first device
  that initialises and starts.\<close>

fun try_monitors ::
  "'s LoopbackRecorder \<Rightarrow> DeviceInfo list \<Rightarrow> rec_error option \<times> 's LoopbackRecorder"
where
  "try_monitors lr [] = (Some AllMonitorsFailed, lr)"
| "try_monitors lr (monitorDevice # rest) =
     (if \<not> initOk monitorDevice then try_monitors (lr\<lparr>lr_device := None\<rparr>) rest
      else if \<not> startOk monitorDevice then try_monitors (lr\<lparr>lr_device := None\<rparr>) rest
      else (None, lr\<lparr>lr_device := Some monitorDevice\<rparr>))"

definition LoopbackRecorder_Start ::
  "Platform \<Rightarrow> 's LoopbackRecorder \<Rightarrow> rec_error option \<times> 's LoopbackRecorder"
where
  "LoopbackRecorder_Start env lr =
     (if lr_recording lr then (Some AlreadyRecording, lr)
      else
        let lr1 = lr\<lparr>lr_samples := []\<rparr> in
        (case devicesResult env of
           None \<Rightarrow> (Some ListDevicesFailed, lr1)
         | Some devices \<Rightarrow>
             if length (monitorDevices (sharedLoopVar env) devices) = 0
             then (Some NoMonitorDevice, lr1)
             else try_monitors lr1 (monitorDevices (sharedLoopVar env) devices)))"

definition LoopbackRecorder_Stop ::
  "'s LoopbackRecorder \<Rightarrow> (rec_error + 's list) \<times> 's LoopbackRecorder"
where
  "LoopbackRecorder_Stop lr =
     (if \<not> lr_recording lr then (Inl NotRecording, lr)
      else (Inr (lr_samples lr), lr\<lparr>lr_recording := False, lr_device := None\<rparr>))"

text \<open>The earlier version of \<open>LoopbackRecorder.Start\<close> in the same file: one
  speaker monitor device, and \<open>recording\<close> set before the successful return.\<close>

definition LoopbackRecorder_Start_v1 ::
  "Platform \<Rightarrow> 's LoopbackRecorder \<Rightarrow> rec_error option \<times> 's LoopbackRecorder"
where
  "LoopbackRecorder_Start_v1 env lr =
     (if lr_recording lr then (Some AlreadyRecording, lr)
      else
        let lr1 = lr\<lparr>lr_samples := []\<rparr> in
        (case devicesResult env of
           None \<Rightarrow> (Some ListDevicesFailed, lr1)
         | Some devices \<Rightarrow>
             (case find (\<lambda>dev. contains (toLower (devName dev)) ''speaker'' \<and>
                               contains (toLower (devName dev)) ''monitor'') devices of
                None \<Rightarrow> (Some NoMonitorDevice, lr1)
              | Some dev \<Rightarrow>
                  if \<not> initOk dev then (Some InitDeviceFailed, lr1\<lparr>lr_device := None\<rparr>)
                  else if \<not> startOk dev
                  then (Some StartDeviceFailed, lr1\<lparr>lr_device := Some dev\<rparr>)
                  else (None, lr1\<lparr>lr_device := Some dev, lr_recording := True\<rparr>))))"

section \<open>Controller and processing pipeline\<close>

text \<open>
  The fields of \<open>App\<close> that the recording commands and the pipeline use; \<open>SampleRate\<close>
  is \<open>cfg.SampleRate\<close>, and \<open>vadProc\<close> is the configuration of the VAD processor (its
  other field, \<open>prevFrame\<close>, is never read). The sound player and the status-bar signal
  are effects outside the model.
\<close>

record App =
  SampleRate :: int
  recorder :: "real Recorder"
  loopbackRec :: "real LoopbackRecorder option"
  aecProc :: "AECProcessor option"
  vadProc :: "VADConfig option"
  isRecording :: bool
  isProcessing :: bool

fun error_text :: "rec_error \<Rightarrow> string" where
  "error_text AlreadyRecording = ''already recording''"
| "error_text NotRecording = ''not recording''"
| "error_text ListDevicesFailed = ''failed to list devices''"
| "error_text InitDeviceFailed = ''failed to initialize device''"
| "error_text StartDeviceFailed = ''failed to start device''"
| "error_text NoMonitorDevice = ''no speaker monitor device found''"
| "error_text AllMonitorsFailed = ''failed to initialize any loopback device''"

definition startRecording :: "Platform \<Rightarrow> App \<Rightarrow> rec_error option \<times> App" where
  "startRecording env app =
     (if isRecording app then (Some AlreadyRecording, app)
      else
        let app1 = app\<lparr>isRecording := True\<rparr>;
            app2 = (case loopbackRec app1 of
                      None \<Rightarrow> app1
                    | Some lr \<Rightarrow>
                        (case LoopbackRecorder_Start env lr of
                           (Some err, lr') \<Rightarrow> app1\<lparr>loopbackRec := None, aecProc := None\<rparr>
                         | (None, lr') \<Rightarrow> app1\<lparr>loopbackRec := Some lr'\<rparr>))
        in (case Recorder_Start env (recorder app2) of
              (err, r') \<Rightarrow> (err, app2\<lparr>recorder := r'\<rparr>)))"

text \<open>\<open>stopRecording\<close>: the error, the controller afterwards and the arguments of the
  background call \<open>go app.processAudio(samples, loopbackSamples)\<close>, if it is made.\<close>

definition stopRecording :: "App \<Rightarrow> rec_error option \<times> App \<times> (real list \<times> real list) option" where
  "stopRecording app =
     (let app1 = app\<lparr>isRecording := False\<rparr> in
      (case Recorder_Stop (recorder app1) of
         (Inl err, r') \<Rightarrow> (Some err, app1\<lparr>recorder := r'\<rparr>, None)
       | (Inr samples', r') \<Rightarrow>
           let app2 = app1\<lparr>recorder := r'\<rparr> in
           (case loopbackRec app2 of
              None \<Rightarrow> (None, app2, Some (samples', []))
            | Some lr \<Rightarrow>
                (case LoopbackRecorder_Stop lr of
                   (Inl err, lr') \<Rightarrow> (None, app2\<lparr>loopbackRec := Some lr'\<rparr>, Some (samples', []))
                 | (Inr loopbackSamples, lr') \<Rightarrow>
                     (None, app2\<lparr>loopbackRec := Some lr'\<rparr>, Some (samples', loopbackSamples))))))"

text \<open>\<open>handleCommand\<close> on the fields of the command line (\<open>strings.Fields(command)\<close>):
  the reply, the controller afterwards and the background call, if one is made.\<close>

definition handleCommand ::
  "Platform \<Rightarrow> App \<Rightarrow> string list \<Rightarrow> string \<times> App \<times> (real list \<times> real list) option"
where
  "handleCommand env app parts =
     (case parts of
        [] \<Rightarrow> (''ERROR: Empty command'', app, None)
      | cmd # args \<Rightarrow>
          if cmd = ''start'' then
            (if isRecording app then (''ERROR: Already recording'', app, None)
             else (case startRecording env app of
                     (Some err, app') \<Rightarrow> (''ERROR: '' @ error_text err, app', None)
                   | (None, app') \<Rightarrow> (''OK: Recording started'', app', None)))
          else if cmd = ''stop'' then
            (if \<not> isRecording app then (''ERROR: Not recording'', app, None)
             else (case stopRecording app of
                     (Some err, app', job) \<Rightarrow> (''ERROR: '' @ error_text err, app', job)
                   | (None, app', job) \<Rightarrow> (''OK: Recording stopped'', app', job)))
          else if cmd = ''toggle'' then
            (if isRecording app
             then (case stopRecording app of
                     (Some err, app', job) \<Rightarrow> (''ERROR: '' @ error_text err, app', job)
                   | (None, app', job) \<Rightarrow> (''OK: Recording stopped'', app', job))
             else (case startRecording env app of
                     (Some err, app') \<Rightarrow> (''ERROR: '' @ error_text err, app', None)
                   | (None, app') \<Rightarrow> (''OK: Recording started'', app', None)))
          else if cmd = ''status'' then
            (if isRecording app then (''1'', app, None) else (''0'', app, None))
          else if cmd = ''model'' then
            (case args of
               [] \<Rightarrow> (''ERROR: model requires a model name'', app, None)
             | modelName # _ \<Rightarrow>
                 (case setModelError env modelName of
                    Some msg \<Rightarrow> (''ERROR: '' @ msg, app, None)
                  | None \<Rightarrow> (''OK: Model set to '' @ modelName, app, None)))
          else (''ERROR: Unknown command '' @ [CHR 0x27] @ cmd @ [CHR 0x27], app, None))"

text \<open>The echo-cancellation stage of \<open>processAudio\<close>: \<open>processedSamples\<close> and the
  controller with the adapted filter.\<close>

definition applyAEC :: "App \<Rightarrow> real list \<Rightarrow> real list \<Rightarrow> panic + (real list \<times> App)" where
  "applyAEC app samples' loopbackSamples =
     (case aecProc app of
        None \<Rightarrow> Inr (samples', app)
      | Some aec \<Rightarrow>
          if length loopbackSamples > 0 then
            let minLen = (if length loopbackSamples < length samples'
                          then length loopbackSamples else length samples')
            in if minLen > 0
               then bindP (AECProcessor_ProcessFrame aec (take minLen samples')
                             (take minLen loopbackSamples))
                      (\<lambda>(processedSamples, aec', logs).
                         Inr (processedSamples, app\<lparr>aecProc := Some aec'\<rparr>))
               else Inr (samples', app)
          else Inr (samples', app))"

text \<open>The muting stage of \<open>processAudio\<close>: the inner loop marks \<open>keepMask[j]\<close> for
  \<open>j = startSample .. endSample - 1\<close>, the outer loop runs over the segments, and the last
  loop zeroes every sample of the copy that is not marked.\<close>

fun mark_range :: "bool list \<Rightarrow> int list \<Rightarrow> panic + bool list" where
  "mark_range keepMask [] = Inr keepMask"
| "mark_range keepMask (j # rest) =
     bindP (go_store keepMask j True) (\<lambda>keepMask'. mark_range keepMask' rest)"

fun mark_segments ::
  "real \<Rightarrow> int \<Rightarrow> int \<Rightarrow> VoiceSegment list \<Rightarrow> bool list \<Rightarrow> panic + bool list"
where
  "mark_segments sampleRate paddingSamples n [] keepMask = Inr keepMask"
| "mark_segments sampleRate paddingSamples n (seg # rest) keepMask =
     (let startSample0 = go_int (Start seg * sampleRate / 1000) - paddingSamples;
          endSample0 = go_int (End seg * sampleRate / 1000) + paddingSamples;
          startSample = (if startSample0 < 0 then 0 else startSample0);
          endSample = (if endSample0 > n then n else endSample0)
      in bindP (mark_range keepMask [startSample .. endSample - 1])
           (\<lambda>keepMask'. mark_segments sampleRate paddingSamples n rest keepMask'))"

definition muteNonVoice :: "int \<Rightarrow> VoiceSegment list \<Rightarrow> real list \<Rightarrow> panic + real list" where
  "muteNonVoice sampleRateCfg voiceSegments processedSamples =
     (let sampleRate = real_of_int sampleRateCfg;
          paddingMs = 200;
          paddingSamples = go_int (paddingMs * sampleRate / 1000);
          mutedSamples = processedSamples;
          keepMask = replicate (length processedSamples) False
      in bindP (mark_segments sampleRate paddingSamples (int (length processedSamples))
                  voiceSegments keepMask)
           (\<lambda>keepMask'. Inr (map2 (\<lambda>s keep. if \<not> keep then 0 else s) mutedSamples keepMask')))"

text \<open>\<open>processAudio\<close> up to the call of the transcription consumer: either the pipeline
  returns before it, or \<open>Transcribe\<close> is called once with the buffer given. What follows
  the call (command execution, text injection) is outside the pipeline.\<close>

datatype outcome = NoVoiceDetected | Transcribe "real list"

definition processAudio :: "App \<Rightarrow> real list \<Rightarrow> real list \<Rightarrow> panic + (outcome \<times> App)" where
  "processAudio app samples' loopbackSamples =
     bindP (applyAEC (app\<lparr>isProcessing := True\<rparr>) samples' loopbackSamples)
       (\<lambda>(processedSamples, app1).
          case vadProc app1 of
            None \<Rightarrow> Inr (Transcribe processedSamples, app1\<lparr>isProcessing := False\<rparr>)
          | Some vad \<Rightarrow>
              bindP (GetVoiceSegments vad processedSamples) (\<lambda>voiceSegments.
                if length voiceSegments = 0
                then Inr (NoVoiceDetected, app1\<lparr>isProcessing := False\<rparr>)
                else bindP (muteNonVoice (SampleRate app1) voiceSegments processedSamples)
                       (\<lambda>mutedSamples.
                          Inr (Transcribe mutedSamples, app1\<lparr>isProcessing := False\<rparr>))))"

section \<open>The scoring formula in the words of the specification\<close>

text \<open>
  The specification gives each score as a clamp to \<open>[0, 1]\<close>:
  \<open>energyScore = clamp(mean(sample\<^sup>2) / energy_threshold / 2, 0, 1)\<close>,
  \<open>zcrScore = clamp(1 - zcr / zcr_threshold, 0, 1)\<close>,
  \<open>spectralScore = clamp(centroid / 2000, 0, 1)\<close> and
  \<open>probability = 0.5 \<sqdot> energyScore + 0.3 \<sqdot> zcrScore + 0.2 \<sqdot> spectralScore\<close>.
  These definitions follow those words, with the mean energy, the zero-crossing rate and
  the centroid as the source computes them.
\<close>

definition clamp01 :: "real \<Rightarrow> real" where
  "clamp01 x = max 0 (min 1 x)"

definition spec_energyScore :: "VADConfig \<Rightarrow> real list \<Rightarrow> real" where
  "spec_energyScore cfg frame = clamp01 (calculateEnergy frame / EnergyThreshold cfg / 2)"

definition spec_zcrScore :: "VADConfig \<Rightarrow> real list \<Rightarrow> real" where
  "spec_zcrScore cfg frame = clamp01 (1 - calculateZCR frame / ZcrThreshold cfg)"

definition spec_spectralScore :: "real list \<Rightarrow> real" where
  "spec_spectralScore frame = clamp01 (calculateSpectralCentroid frame / 2000)"

definition spec_voiceProbability :: "VADConfig \<Rightarrow> real list \<Rightarrow> real" where
  "spec_voiceProbability cfg frame =
     1 / 2 * spec_energyScore cfg frame + 3 / 10 * spec_zcrScore cfg frame
       + 1 / 5 * spec_spectralScore frame"

section \<open>The kept range of a segment in the words of the specification\<close>

text \<open>
  The specification keeps, for each segment, the range
  \<open>[segment.start - padding, segment.end + padding]\<close>, converted to sample indices and
  clamped to the bounds of the buffer, with a padding of 200 ms. In sample indices the
  range starts at \<open>keptStart\<close> and ends before \<open>keptEnd\<close>; times become indices by
  \<open>int(ms \<sqdot> sampleRate / 1000)\<close>.
\<close>

definition keptStart :: "int \<Rightarrow> VoiceSegment \<Rightarrow> int" where
  "keptStart sampleRate seg =
     max 0 (go_int (Start seg * real_of_int sampleRate / 1000)
              - go_int (200 * real_of_int sampleRate / 1000))"

definition keptEnd :: "int \<Rightarrow> nat \<Rightarrow> VoiceSegment \<Rightarrow> int" where
  "keptEnd sampleRate n seg =
     min (int n) (go_int (End seg * real_of_int sampleRate / 1000)
                    + go_int (200 * real_of_int sampleRate / 1000))"

definition in_kept_range :: "int \<Rightarrow> nat \<Rightarrow> VoiceSegment \<Rightarrow> nat \<Rightarrow> bool" where
  "in_kept_range sampleRate n seg i =
     (keptStart sampleRate seg \<le> int i \<and> int i < keptEnd sampleRate n seg)"

section \<open>A little-endian sample in the words of the specification\<close>

text \<open>
  The 32-bit value whose little-endian byte sequence is \<open>b0 b1 b2 b3\<close>: the bit
  pattern of the \<open>float32\<close> that the four bytes encode.
\<close>

definition le_bits32 :: "8 word \<Rightarrow> 8 word \<Rightarrow> 8 word \<Rightarrow> 8 word \<Rightarrow> 32 word" where
  "le_bits32 b0 b1 b2 b3 =
     word_of_nat (unat b0 + 256 * unat b1 + 65536 * unat b2 + 16777216 * unat b3)"

section \<open>Properties of the voice activity detector\<close>

subsection \<open>Frame count\<close>


lemma go_quo_nonneg: "0 \<le> a \<Longrightarrow> 0 < b \<Longrightarrow> go_quo a b = Inr (a div b)"
  by (cases "a = 0") (simp_all add: go_quo_def)

lemma classify_frames_fold:
  assumes "\<forall>i \<in> set js. 0 \<le> i \<and> i * Overlap cfg + FrameSize cfg \<le> int (length audio) \<and> i < int (length va)"
    and "0 \<le> Overlap cfg" and "0 \<le> FrameSize cfg"
  shows "classify_frames cfg audio js va =
         Inr (fold (\<lambda>i va. va[nat i := VADProcessor_ProcessFrame cfg (take (nat (FrameSize cfg)) (drop (nat (i * Overlap cfg)) audio))]) js va)"
  using assms
proof (induction js arbitrary: va)
  case Nil
  then show ?case by simp
next
  case (Cons i js)
  let ?f = "FrameSize cfg" and ?o = "Overlap cfg"
  from Cons.prems have i: "0 \<le> i" "i * ?o + ?f \<le> int (length audio)" "i < int (length va)"
    by simp_all
  have io: "0 \<le> i * ?o" using i(1) Cons.prems(2) by simp
  have sl: "go_slice audio (i * ?o) (i * ?o + ?f) = Inr (take (nat ?f) (drop (nat (i * ?o)) audio))"
    using i io Cons.prems(3) by (simp add: go_slice_def)
  have len: "int (length (take (nat ?f) (drop (nat (i * ?o)) audio))) = ?f"
    using i io Cons.prems(3) by simp
  have st: "go_store va i b = Inr (va[nat i := b])" for b
    using i by (simp add: go_store_def)
  have rest: "\<forall>j \<in> set js. 0 \<le> j \<and> j * ?o + ?f \<le> int (length audio) \<and> j < int (length (va[nat i := b]))" for b
    using Cons.prems(1) by simp
  show ?case
    using i(2) sl len st Cons.IH[OF rest Cons.prems(2,3)]
    by (simp add: bindP_def Let_def)
qed

lemma fold_update_length:
  "length (fold (\<lambda>i va. va[nat i := g i]) js va) = length va"
  by (induction js arbitrary: va) simp_all

lemma fold_update_nth:
  "k < length va \<Longrightarrow> int k \<in> set js \<Longrightarrow> \<forall>j \<in> set js. 0 \<le> j \<Longrightarrow>
   fold (\<lambda>i va. va[nat i := g i]) js va ! k = g (int k)"
proof (induction js arbitrary: va)
  case Nil
  then show ?case by simp
next
  case (Cons j js)
  show ?case
  proof (cases "int k \<in> set js")
    case True
    then show ?thesis using Cons by simp
  next
    case False
    then have jk: "j = int k" using Cons.prems by simp
    have keep: "k < length va' \<Longrightarrow> int k \<notin> set js' \<Longrightarrow> \<forall>j \<in> set js'. 0 \<le> j \<Longrightarrow>
        fold (\<lambda>i va. va[nat i := g i]) js' va' ! k = va' ! k" for js' va'
      by (induction js' arbitrary: va') (auto simp: nth_list_update)
    show ?thesis using False jk Cons.prems keep[of "va[nat j := g j]" js] by simp
  qed
qed

text \<open>The run of \<open>IsVoiceDetected\<close> for a positive hop below the frame size.\<close>

lemma IsVoiceDetected_frames:
  assumes "0 < Overlap cfg" and "Overlap cfg < FrameSize cfg"
  shows "\<exists>voiceActivity.
           IsVoiceDetected cfg audio = Inr voiceActivity \<and>
           int (length voiceActivity) =
             (if FrameSize cfg \<le> int (length audio)
              then (int (length audio) - FrameSize cfg) div Overlap cfg + 1 else 0) \<and>
           (\<forall>k < length voiceActivity.
              voiceActivity ! k =
                VADProcessor_ProcessFrame cfg (take (nat (FrameSize cfg)) (drop (k * nat (Overlap cfg)) audio)))"
proof (cases "int (length audio) < FrameSize cfg")
  case True
  then show ?thesis by (simp add: IsVoiceDetected_def)
next
  case False
  let ?f = "FrameSize cfg" and ?o = "Overlap cfg" and ?L = "int (length audio)"
  let ?q = "(?L - ?f) div ?o"
  let ?g = "\<lambda>i. VADProcessor_ProcessFrame cfg (take (nat ?f) (drop (nat (i * ?o)) audio))"
  let ?va = "fold (\<lambda>i va. va[nat i := ?g i]) [0 .. ?q] (replicate (nat (?q + 1)) False)"
  from False have Lf: "0 \<le> ?L - ?f" by simp
  have q0: "0 \<le> ?q" using Lf assms(1) by (simp add: pos_imp_zdiv_nonneg_iff)
  have quo: "go_quo (?L - ?f) ?o = Inr ?q" using Lf assms(1) by (rule go_quo_nonneg)
  have bound: "i * ?o + ?f \<le> ?L" if "0 \<le> i" "i \<le> ?q" for i
  proof -
    have "i * ?o \<le> ?q * ?o" using that assms(1) by (simp add: mult_right_mono)
    also have "\<dots> \<le> ?L - ?f" proof -
      have "0 \<le> (?L - ?f) mod ?o" using assms(1) by simp
      moreover have "?o * ?q + (?L - ?f) mod ?o = ?L - ?f" by (rule mult_div_mod_eq)
      moreover have "?q * ?o = ?o * ?q" by (rule mult.commute)
      ultimately show ?thesis by linarith
    qed
    finally show ?thesis by simp
  qed
  have pre: "\<forall>i \<in> set [0 .. ?q]. 0 \<le> i \<and> i * ?o + ?f \<le> ?L \<and> i < int (length (replicate (nat (?q + 1)) False))"
    using bound q0 by auto
  have cf: "classify_frames cfg audio [0 .. ?q] (replicate (nat (?q + 1)) False) = Inr ?va"
    using classify_frames_fold[OF pre] assms by simp
  have run: "IsVoiceDetected cfg audio = Inr ?va"
    using False quo q0 cf by (simp add: IsVoiceDetected_def bindP_def Let_def)
  have len: "int (length ?va) = ?q + 1"
    using q0 by (simp add: fold_update_length)
  have nth: "?va ! k = ?g (int k)" if "k < length ?va" for k
  proof -
    have k: "k < nat (?q + 1)" using that by (simp add: fold_update_length)
    then have "int k \<in> set [0 .. ?q]" by auto
    then show ?thesis using k by (intro fold_update_nth) auto
  qed
  have idx: "nat (int k * ?o) = k * nat ?o" for k
    using assms(1) by (simp add: nat_mult_distrib)
  show ?thesis
    using run len nth False by (auto simp: idx)
qed


text \<open>
  Claim C9. For a hop \<open>o\<close> with \<open>0 < o < f\<close> and a buffer of length \<open>L\<close>,
  \<open>IsVoiceDetected\<close> returns without a panic, its result has \<open>(L - f) div o + 1\<close> entries
  when \<open>L \<ge> f\<close> and none when \<open>L < f\<close>, and entry \<open>k\<close> is the classification by
  \<open>ProcessFrame\<close> of the \<open>f\<close> samples that start at \<open>k * o\<close>. A hop is the positive step
  between two windows; with \<open>o = 0\<close> the division of the source panics.
\<close>

theorem IsVoiceDetected_frame_count:
  assumes "0 < Overlap cfg" and "Overlap cfg < FrameSize cfg"
  shows "\<exists>voiceActivity.
           IsVoiceDetected cfg audio = Inr voiceActivity \<and>
           int (length voiceActivity) =
             (if FrameSize cfg \<le> int (length audio)
              then (int (length audio) - FrameSize cfg) div Overlap cfg + 1 else 0) \<and>
           (\<forall>k < length voiceActivity.
              voiceActivity ! k =
                VADProcessor_ProcessFrame cfg
                  (take (nat (FrameSize cfg)) (drop (k * nat (Overlap cfg)) audio)))"
  using assms by (rule IsVoiceDetected_frames)

theorem IsVoiceDetected_frame_count_witness:
  "0 < Overlap DefaultVADConfig \<and> Overlap DefaultVADConfig < FrameSize DefaultVADConfig \<and>
   (\<exists>voiceActivity.
      IsVoiceDetected DefaultVADConfig (replicate 1024 0) = Inr voiceActivity \<and>
      length voiceActivity = 3)"
  using IsVoiceDetected_frame_count [of DefaultVADConfig "replicate 1024 0"]
  by (auto simp: DefaultVADConfig_def)

subsection \<open>Scores of a frame\<close>


lemma centroid_sums_nonneg:
  "centroid_sums audio i ws ms = (ws', ms') \<Longrightarrow> 0 \<le> ws \<Longrightarrow> 0 \<le> ms \<Longrightarrow> 0 \<le> ws' \<and> 0 \<le> ms'"
proof (induction audio arbitrary: i ws ms)
  case Nil
  then show ?case by simp
next
  case (Cons a audio)
  from Cons.prems(1)
  have "centroid_sums audio (Suc i) (ws + \<bar>a\<bar> * real i) (ms + \<bar>a\<bar>) = (ws', ms')" by simp
  moreover have "0 \<le> ws + \<bar>a\<bar> * real i" "0 \<le> ms + \<bar>a\<bar>" using Cons.prems by simp_all
  ultimately show ?case by (rule Cons.IH)
qed

lemma calculateSpectralCentroid_nonneg: "0 \<le> calculateSpectralCentroid audio"
proof -
  obtain ws ms where s: "centroid_sums audio 0 0 0 = (ws, ms)" by (cases "centroid_sums audio 0 0 0")
  then have "0 \<le> ws \<and> 0 \<le> ms" by (rule centroid_sums_nonneg) simp_all
  then show ?thesis using s by (simp add: calculateSpectralCentroid_def)
qed

lemma calculateZCR_nonneg: "0 \<le> calculateZCR audio"
  by (simp add: calculateZCR_def)

lemma spectralScore_clamp: "spectralScore frame = spec_spectralScore frame"
  using calculateSpectralCentroid_nonneg [of frame]
  by (simp add: spectralScore_def spec_spectralScore_def clamp01_def Let_def max_def min_def)

lemma zcrScore_clamp:
  assumes "0 < ZcrThreshold cfg"
  shows "zcrScore cfg frame = spec_zcrScore cfg frame"
proof (cases "calculateZCR frame < ZcrThreshold cfg")
  case True
  then have "0 \<le> calculateZCR frame / ZcrThreshold cfg" "calculateZCR frame / ZcrThreshold cfg < 1"
    using assms calculateZCR_nonneg [of frame] by simp_all
  then show ?thesis using True
    by (simp add: zcrScore_def spec_zcrScore_def clamp01_def Let_def max_def min_def)
next
  case False
  then have "1 \<le> calculateZCR frame / ZcrThreshold cfg" using assms by simp
  then show ?thesis using False
    by (simp add: zcrScore_def spec_zcrScore_def clamp01_def Let_def max_def min_def)
qed

lemma energyScore_above:
  assumes "0 < EnergyThreshold cfg" and "EnergyThreshold cfg < calculateEnergy frame"
  shows "energyScore cfg frame = spec_energyScore cfg frame"
proof -
  have "1 < calculateEnergy frame / EnergyThreshold cfg" using assms by simp
  then show ?thesis using assms(2)
    by (auto simp: energyScore_def spec_energyScore_def clamp01_def Let_def max_def min_def)
qed

lemma energyScore_below:
  "calculateEnergy frame \<le> EnergyThreshold cfg \<Longrightarrow> energyScore cfg frame = 0"
  by (simp add: energyScore_def Let_def)

text \<open>The scores of a frame of equal samples, in closed form.\<close>

lemma energy_sum_replicate:
  "foldl (\<lambda>energy sample. energy + sample * sample) a (replicate n x) = a + real n * (x * x)"
  by (induction n arbitrary: a) (simp_all add: algebra_simps)

lemma calculateEnergy_replicate: "0 < n \<Longrightarrow> calculateEnergy (replicate n x) = x * x"
  by (simp add: calculateEnergy_def energy_sum_replicate)

lemma crossings_replicate: "crossings (replicate n x) = 0"
proof (induction n)
  case 0
  then show ?case by simp
next
  case (Suc n)
  then show ?case by (cases n) simp_all
qed

lemma calculateZCR_replicate: "calculateZCR (replicate n x) = 0"
  by (simp add: calculateZCR_def crossings_replicate)

lemma centroid_sums_replicate:
  "centroid_sums (replicate n x) i ws ms =
     (ws + \<bar>x\<bar> * (real n * real i + real n * (real n - 1) / 2), ms + real n * \<bar>x\<bar>)"
proof (induction n arbitrary: i ws ms)
  case 0
  then show ?case by simp
next
  case (Suc n)
  have "centroid_sums (replicate (Suc n) x) i ws ms =
        centroid_sums (replicate n x) (Suc i) (ws + \<bar>x\<bar> * real i) (ms + \<bar>x\<bar>)"
    by simp
  also have "\<dots> = (ws + \<bar>x\<bar> * real i + \<bar>x\<bar> * (real n * real (Suc i) + real n * (real n - 1) / 2),
                   ms + \<bar>x\<bar> + real n * \<bar>x\<bar>)"
    by (rule Suc.IH)
  also have "\<dots> = (ws + \<bar>x\<bar> * (real (Suc n) * real i + real (Suc n) * (real (Suc n) - 1) / 2),
                   ms + real (Suc n) * \<bar>x\<bar>)"
    by (simp add: field_simps)
  finally show ?case .
qed

lemma calculateSpectralCentroid_replicate:
  assumes "0 < n" and "x \<noteq> 0"
  shows "calculateSpectralCentroid (replicate n x) = (real n - 1) / 2"
proof -
  have "real n * \<bar>x\<bar> \<noteq> 0" using assms by simp
  then show ?thesis using assms
    by (simp add: calculateSpectralCentroid_def centroid_sums_replicate)
qed

text \<open>
  Claim C3, as the code has it. For positive thresholds and a frame of at least
  \<open>FrameSize\<close> samples, the probability is
  \<open>0.5 \<sqdot> energyScore + 0.3 \<sqdot> zcrScore + 0.2 \<sqdot> spectralScore\<close>, where the zero-crossing
  and spectral scores are the clamps of the specification, and the energy score is the
  clamp \<open>clamp(mean / energy_threshold / 2, 0, 1)\<close> only when the mean energy exceeds the
  threshold and is 0 otherwise; the frame is voice exactly when the probability exceeds
  \<open>VoiceThreshold\<close>.
\<close>

theorem VADProcessor_ProcessFrame_scores:
  assumes "0 < EnergyThreshold cfg" and "0 < ZcrThreshold cfg"
    and "FrameSize cfg \<le> int (length frame)"
  shows "voiceProbability cfg frame =
           1 / 2 * (if EnergyThreshold cfg < calculateEnergy frame
                    then clamp01 (calculateEnergy frame / EnergyThreshold cfg / 2) else 0)
           + 3 / 10 * clamp01 (1 - calculateZCR frame / ZcrThreshold cfg)
           + 1 / 5 * clamp01 (calculateSpectralCentroid frame / 2000)
         \<and> (VADProcessor_ProcessFrame cfg frame \<longleftrightarrow> VoiceThreshold cfg < voiceProbability cfg frame)"
proof -
  have e: "energyScore cfg frame =
           (if EnergyThreshold cfg < calculateEnergy frame
            then clamp01 (calculateEnergy frame / EnergyThreshold cfg / 2) else 0)"
    using energyScore_above [OF assms(1), of frame] energyScore_below [of frame cfg]
    by (simp add: spec_energyScore_def)
  have z: "zcrScore cfg frame = clamp01 (1 - calculateZCR frame / ZcrThreshold cfg)"
    using zcrScore_clamp [OF assms(2), of frame] by (simp add: spec_zcrScore_def)
  have c: "spectralScore frame = clamp01 (calculateSpectralCentroid frame / 2000)"
    using spectralScore_clamp [of frame] by (simp add: spec_spectralScore_def)
  have p: "VADProcessor_ProcessFrame cfg frame \<longleftrightarrow> VoiceThreshold cfg < voiceProbability cfg frame"
    using assms(3) by (simp add: VADProcessor_ProcessFrame_def)
  show ?thesis unfolding voiceProbability_def e z c using p by (simp add: voiceProbability_def e z c)
qed

theorem VADProcessor_ProcessFrame_scores_witness:
  "0 < EnergyThreshold DefaultVADConfig \<and> 0 < ZcrThreshold DefaultVADConfig \<and>
   FrameSize DefaultVADConfig \<le> int (length (replicate 512 (1 / 4 :: real))) \<and>
   voiceProbability DefaultVADConfig (replicate 512 (1 / 4)) = 1 / 2 + 3 / 10 + 1 / 5 * (511 / 4000) \<and>
   VADProcessor_ProcessFrame DefaultVADConfig (replicate 512 (1 / 4))"
  using VADProcessor_ProcessFrame_scores [of DefaultVADConfig "replicate 512 (1 / 4)"]
  by (simp add: DefaultVADConfig_def calculateEnergy_replicate calculateZCR_replicate
      calculateSpectralCentroid_replicate clamp01_def)

text \<open>
  Claim C3, as stated, fails: 512 samples of value \<open>1/16\<close> have the mean energy
  \<open>1/256\<close>, positive and below the default threshold \<open>1/100\<close>. The source guards the
  score with \<open>energy > EnergyThreshold\<close>, so the score is 0, where the clamp of the
  specification gives \<open>25/128\<close>; the probabilities differ, and with a voice threshold of
  \<open>2/5\<close> the frame is not voice although the probability of the specification exceeds
  the threshold.
\<close>

theorem energyScore_clamp_counterexample:
  "int (length (replicate 512 (1 / 16 :: real))) = FrameSize DefaultVADConfig \<and>
   0 < calculateEnergy (replicate 512 (1 / 16)) \<and>
   calculateEnergy (replicate 512 (1 / 16)) \<le> EnergyThreshold DefaultVADConfig \<and>
   energyScore DefaultVADConfig (replicate 512 (1 / 16)) = 0 \<and>
   spec_energyScore DefaultVADConfig (replicate 512 (1 / 16)) = 25 / 128 \<and>
   voiceProbability DefaultVADConfig (replicate 512 (1 / 16))
     \<noteq> spec_voiceProbability DefaultVADConfig (replicate 512 (1 / 16)) \<and>
   \<not> VADProcessor_ProcessFrame (DefaultVADConfig\<lparr>VoiceThreshold := 2 / 5\<rparr>) (replicate 512 (1 / 16)) \<and>
   VoiceThreshold (DefaultVADConfig\<lparr>VoiceThreshold := 2 / 5\<rparr>)
     < spec_voiceProbability (DefaultVADConfig\<lparr>VoiceThreshold := 2 / 5\<rparr>) (replicate 512 (1 / 16))"
  by (simp add: DefaultVADConfig_def calculateEnergy_replicate calculateZCR_replicate
      calculateSpectralCentroid_replicate clamp01_def energyScore_def spec_energyScore_def
      voiceProbability_def spec_voiceProbability_def zcrScore_def spec_zcrScore_def
      spectralScore_def spec_spectralScore_def VADProcessor_ProcessFrame_def Let_def)


section \<open>Properties of the echo canceller\<close>

subsection \<open>A well-formed processor never panics\<close>


lemma go_rem_nonneg: "0 \<le> a \<Longrightarrow> 0 < b \<Longrightarrow> go_rem a b = Inr (a mod b)"
  by (cases "a = 0") (simp_all add: go_rem_def)

lemma bufferIndex_ok:
  assumes "aec_wf aec" and "0 \<le> j" and "j < FilterLength (config aec)"
  shows "\<exists>b. bufferIndex aec j = Inr b \<and> 0 \<le> b \<and> b < FilterLength (config aec)"
proof -
  let ?N = "FilterLength (config aec)"
  have N: "0 < ?N" and i: "0 \<le> farEndIndex aec" using assms(1) by (simp_all add: aec_wf_def)
  have "0 \<le> farEndIndex aec - 1 - j + ?N" using i assms(3) by simp
  then have "bufferIndex aec j = Inr ((farEndIndex aec - 1 - j + ?N) mod ?N)"
    using N by (simp add: bufferIndex_def go_rem_nonneg)
  then show ?thesis using N by simp
qed

lemma go_index_ok: "0 \<le> i \<Longrightarrow> i < int (length xs) \<Longrightarrow> go_index xs i = Inr (xs ! nat i)"
  by (simp add: go_index_def)

lemma go_store_ok: "0 \<le> i \<Longrightarrow> i < int (length xs) \<Longrightarrow> go_store xs i v = Inr (xs[nat i := v])"
  by (simp add: go_store_def)

lemma echo_loop_ok:
  assumes "aec_wf aec" and "\<forall>j \<in> set js. 0 \<le> j \<and> j < FilterLength (config aec)"
  shows "\<exists>e. echo_loop aec js acc = Inr e"
  using assms(2)
proof (induction js arbitrary: acc)
  case Nil
  then show ?case by simp
next
  case (Cons j js)
  then have j: "0 \<le> j" "j < FilterLength (config aec)" by simp_all
  obtain b where b: "bufferIndex aec j = Inr b" "0 \<le> b" "b < FilterLength (config aec)"
    using bufferIndex_ok [OF assms(1) j] by blast
  have w: "go_index (filter_coeffs aec) j = Inr (filter_coeffs aec ! nat j)"
    using j assms(1) by (simp add: go_index_ok aec_wf_def)
  have r: "go_index (farEndBuffer aec) b = Inr (farEndBuffer aec ! nat b)"
    using b assms(1) by (simp add: go_index_ok aec_wf_def)
  show ?case using b(1) w r Cons.IH Cons.prems by (simp add: bindP_def)
qed

lemma power_loop_ok:
  assumes "aec_wf aec" and "\<forall>j \<in> set js. 0 \<le> j \<and> j < FilterLength (config aec)"
  shows "\<exists>p. power_loop aec js acc = Inr p"
  using assms(2)
proof (induction js arbitrary: acc)
  case Nil
  then show ?case by simp
next
  case (Cons j js)
  then have j: "0 \<le> j" "j < FilterLength (config aec)" by simp_all
  obtain b where b: "bufferIndex aec j = Inr b" "0 \<le> b" "b < FilterLength (config aec)"
    using bufferIndex_ok [OF assms(1) j] by blast
  have r: "go_index (farEndBuffer aec) b = Inr (farEndBuffer aec ! nat b)"
    using b assms(1) by (simp add: go_index_ok aec_wf_def)
  show ?case using b(1) r Cons.IH Cons.prems by (simp add: bindP_def)
qed

lemma update_loop_ok:
  assumes "aec_wf aec" and "\<forall>j \<in> set js. 0 \<le> j \<and> j < FilterLength (config aec)"
  shows "\<exists>aec'. update_loop aec nss err js = Inr aec' \<and> aec_wf aec' \<and>
           config aec' = config aec \<and> farEndBuffer aec' = farEndBuffer aec \<and>
           farEndIndex aec' = farEndIndex aec"
  using assms
proof (induction js arbitrary: aec)
  case Nil
  then show ?case by simp
next
  case (Cons j js)
  then have j: "0 \<le> j" "j < FilterLength (config aec)" by simp_all
  obtain b where b: "bufferIndex aec j = Inr b" "0 \<le> b" "b < FilterLength (config aec)"
    using bufferIndex_ok [OF Cons.prems(1) j] by blast
  have w: "go_index (filter_coeffs aec) j = Inr (filter_coeffs aec ! nat j)"
    using j Cons.prems(1) by (simp add: go_index_ok aec_wf_def)
  have r: "go_index (farEndBuffer aec) b = Inr (farEndBuffer aec ! nat b)"
    using b Cons.prems(1) by (simp add: go_index_ok aec_wf_def)
  have st: "go_store (filter_coeffs aec) j v = Inr ((filter_coeffs aec)[nat j := v])" for v
    using j Cons.prems(1) by (simp add: go_store_ok aec_wf_def)
  let ?aec1 = "aec\<lparr>filter_coeffs := (filter_coeffs aec)
      [nat j := LeakageFactor (config aec) * (filter_coeffs aec ! nat j) + nss * err * (farEndBuffer aec ! nat b)]\<rparr>"
  have wf1: "aec_wf ?aec1" using Cons.prems(1) by (simp add: aec_wf_def)
  have rest: "\<forall>j \<in> set js. 0 \<le> j \<and> j < FilterLength (config ?aec1)" using Cons.prems(2) by simp
  from Cons.IH [OF wf1 rest] obtain aec' where
    "update_loop ?aec1 nss err js = Inr aec'" "aec_wf aec'" "config aec' = config ?aec1"
    "farEndBuffer aec' = farEndBuffer ?aec1" "farEndIndex aec' = farEndIndex ?aec1"
    by blast
  then show ?case using b(1) w r st by (simp add: bindP_def)
qed

lemma push_farEnd_ok:
  assumes "aec_wf aec"
  shows "push_farEnd aec far =
           Inr (aec\<lparr>farEndBuffer := (farEndBuffer aec)[nat (farEndIndex aec) := far],
                    farEndIndex := (farEndIndex aec + 1) mod FilterLength (config aec)\<rparr>)"
  using assms by (simp add: push_farEnd_def aec_wf_def go_store_ok go_rem_nonneg bindP_def)

lemma push_farEnd_wf:
  assumes "aec_wf aec" and "push_farEnd aec far = Inr aec1"
  shows "aec_wf aec1 \<and> config aec1 = config aec \<and> filter_coeffs aec1 = filter_coeffs aec"
  using assms push_farEnd_ok [OF assms(1), of far] by (auto simp: aec_wf_def)

lemma upto_range: "\<forall>j \<in> set [0 .. n - 1]. 0 \<le> j \<and> j < (n::int)"
  by simp

lemma process_sample_ok:
  assumes "aec_wf aec"
  shows "\<exists>aec' out. process_sample aec mic far = Inr (aec', out) \<and> aec_wf aec' \<and>
           config aec' = config aec"
proof -
  obtain aec1 where p: "push_farEnd aec far = Inr aec1"
    using push_farEnd_ok [OF assms] by blast
  have wf1: "aec_wf aec1" and c1: "config aec1 = config aec"
    using push_farEnd_wf [OF assms p] by simp_all
  obtain e where e: "echo_loop aec1 [0 .. FilterLength (config aec1) - 1] 0 = Inr e"
    using echo_loop_ok [OF wf1 upto_range] by blast
  obtain pw where pw: "window_power aec1 = Inr pw"
    unfolding window_power_def using power_loop_ok [OF wf1 upto_range] by blast
  obtain aec2 where u: "update_filter aec1 pw (mic - e) = Inr aec2" "aec_wf aec2" "config aec2 = config aec1"
    unfolding update_filter_def using update_loop_ok [OF wf1 upto_range] wf1
    by (cases "aec_epsilon < pw") (simp_all, blast)
  show ?thesis using p e pw u c1 by (simp add: process_sample_def bindP_def Let_def)
qed

lemma frame_loop_ok:
  assumes "aec_wf aec"
  shows "\<exists>out aec'. frame_loop aec ps acc = Inr (acc @ out, aec') \<and> length out = length ps \<and>
           aec_wf aec' \<and> config aec' = config aec"
  using assms
proof (induction ps arbitrary: aec acc)
  case Nil
  then show ?case by simp
next
  case (Cons p ps)
  obtain mic far where pp: "p = (mic, far)" by (cases p)
  obtain aec1 out1 where s: "process_sample aec mic far = Inr (aec1, out1)" "aec_wf aec1" "config aec1 = config aec"
    using process_sample_ok [OF Cons.prems] by blast
  from Cons.IH [OF s(2), of "acc @ [out1]"] obtain out aec' where
    r: "frame_loop aec1 ps (acc @ [out1]) = Inr ((acc @ [out1]) @ out, aec')" "length out = length ps"
       "aec_wf aec'" "config aec' = config aec1" by blast
  have "frame_loop aec (p # ps) acc = Inr (acc @ (out1 # out), aec')"
    using pp s(1) r(1) by (simp add: bindP_def)
  moreover have "length (out1 # out) = length (p # ps)" using r(2) by simp
  ultimately show ?case using r(3,4) s(3) by metis
qed

lemma AECProcessor_ProcessFrame_ok:
  assumes "aec_wf aec" and "length micSignal = length farEndSignal"
  shows "\<exists>output aec'. AECProcessor_ProcessFrame aec micSignal farEndSignal = Inr (output, aec', []) \<and>
           length output = length micSignal \<and> aec_wf aec' \<and> config aec' = config aec"
proof -
  obtain out aec' where r: "frame_loop aec (zip micSignal farEndSignal) [] = Inr ([] @ out, aec')"
    "length out = length (zip micSignal farEndSignal)" "aec_wf aec'" "config aec' = config aec"
    using frame_loop_ok [OF assms(1), of "zip micSignal farEndSignal" "[]"] by blast
  then show ?thesis using assms(2) by (simp add: AECProcessor_ProcessFrame_def bindP_def)
qed

lemma NewAECProcessor_wf:
  "0 < FilterLength c \<Longrightarrow> \<exists>aec. NewAECProcessor c = Inr aec \<and> aec_wf aec \<and> config aec = c"
  by (simp add: NewAECProcessor_def aec_wf_def)

lemma AECProcessor_Reset_wf: "aec_wf aec \<Longrightarrow> aec_wf (AECProcessor_Reset aec)"
  by (simp add: aec_wf_def AECProcessor_Reset_def)


subsection \<open>An all-zero reference window\<close>


lemma aec_epsilon_pos: "0 < aec_epsilon"
  by (simp add: aec_epsilon_def)

lemma echo_loop_silent:
  assumes "aec_wf aec" and "farEndBuffer aec = replicate (length (farEndBuffer aec)) 0"
    and "\<forall>j \<in> set js. 0 \<le> j \<and> j < FilterLength (config aec)"
  shows "echo_loop aec js acc = Inr acc"
  using assms(3)
proof (induction js arbitrary: acc)
  case Nil
  then show ?case by simp
next
  case (Cons j js)
  then have j: "0 \<le> j" "j < FilterLength (config aec)" by simp_all
  obtain b where b: "bufferIndex aec j = Inr b" "0 \<le> b" "b < FilterLength (config aec)"
    using bufferIndex_ok [OF assms(1) j] by blast
  have w: "go_index (filter_coeffs aec) j = Inr (filter_coeffs aec ! nat j)"
    using j assms(1) by (simp add: go_index_ok aec_wf_def)
  have "nat b < length (farEndBuffer aec)" using b assms(1) unfolding aec_wf_def by linarith
  then have "farEndBuffer aec ! nat b = 0"
    using assms(2) by (metis nth_replicate)
  then have r: "go_index (farEndBuffer aec) b = Inr 0"
    using b assms(1) by (simp add: go_index_ok aec_wf_def)
  show ?case using b(1) w r Cons.IH Cons.prems by (simp add: bindP_def)
qed

lemma power_loop_silent:
  assumes "aec_wf aec" and "farEndBuffer aec = replicate (length (farEndBuffer aec)) 0"
    and "\<forall>j \<in> set js. 0 \<le> j \<and> j < FilterLength (config aec)"
  shows "power_loop aec js acc = Inr acc"
  using assms(3)
proof (induction js arbitrary: acc)
  case Nil
  then show ?case by simp
next
  case (Cons j js)
  then have j: "0 \<le> j" "j < FilterLength (config aec)" by simp_all
  obtain b where b: "bufferIndex aec j = Inr b" "0 \<le> b" "b < FilterLength (config aec)"
    using bufferIndex_ok [OF assms(1) j] by blast
  have "nat b < length (farEndBuffer aec)" using b assms(1) unfolding aec_wf_def by linarith
  then have "farEndBuffer aec ! nat b = 0"
    using assms(2) by (metis nth_replicate)
  then have r: "go_index (farEndBuffer aec) b = Inr 0"
    using b assms(1) by (simp add: go_index_ok aec_wf_def)
  show ?case using b(1) r Cons.IH Cons.prems by (simp add: bindP_def)
qed

lemma push_farEnd_silent:
  assumes "aec_wf aec" and "farEndBuffer aec = replicate (length (farEndBuffer aec)) 0"
  shows "push_farEnd aec 0 =
           Inr (aec\<lparr>farEndIndex := (farEndIndex aec + 1) mod FilterLength (config aec)\<rparr>)"
proof -
  have "(farEndBuffer aec)[nat (farEndIndex aec) := 0] = farEndBuffer aec"
    using assms(2) by (metis list_update_id nth_replicate list_update_beyond linorder_not_less)
  then show ?thesis using push_farEnd_ok [OF assms(1), of 0] by simp
qed

lemma clip_clamp_unit:
  "(if s > 1 then 1 else if s < - 1 then - 1 else s) = clamp_unit s"
  by (simp add: clamp_unit_def max_def min_def)

lemma process_sample_silent:
  assumes "aec_wf aec" and "farEndBuffer aec = replicate (length (farEndBuffer aec)) 0"
  shows "process_sample aec mic 0 =
           Inr (aec\<lparr>farEndIndex := (farEndIndex aec + 1) mod FilterLength (config aec)\<rparr>,
                clamp_unit (mic * EchoSuppression (config aec)))"
proof -
  let ?aec1 = "aec\<lparr>farEndIndex := (farEndIndex aec + 1) mod FilterLength (config aec)\<rparr>"
  have wf1: "aec_wf ?aec1" using assms(1) by (simp add: aec_wf_def)
  have z1: "farEndBuffer ?aec1 = replicate (length (farEndBuffer ?aec1)) 0" using assms(2) by simp
  have e: "echo_loop ?aec1 [0 .. FilterLength (config ?aec1) - 1] 0 = Inr 0"
    by (rule echo_loop_silent [OF wf1 z1 upto_range])
  have p: "window_power ?aec1 = Inr 0"
    unfolding window_power_def by (rule power_loop_silent [OF wf1 z1 upto_range])
  have u: "update_filter ?aec1 0 mic = Inr ?aec1"
    using aec_epsilon_pos by (simp add: update_filter_def)
  show ?thesis
    unfolding process_sample_def push_farEnd_silent [OF assms]
    using e p u by (simp add: bindP_def Let_def clip_clamp_unit del: upto.simps)
qed

lemma frame_loop_silent:
  assumes "aec_wf aec" and "farEndBuffer aec = replicate (length (farEndBuffer aec)) 0"
    and "\<forall>p \<in> set ps. snd p = 0"
  shows "frame_loop aec ps acc =
           Inr (acc @ map (\<lambda>p. clamp_unit (fst p * EchoSuppression (config aec))) ps,
                aec\<lparr>farEndIndex := (farEndIndex aec + int (length ps)) mod FilterLength (config aec)\<rparr>)"
  using assms
proof (induction ps arbitrary: aec acc)
  case Nil
  then have "farEndIndex aec mod FilterLength (config aec) = farEndIndex aec"
    by (simp add: aec_wf_def)
  then show ?case by simp
next
  case (Cons p ps)
  obtain mic where pp: "p = (mic, 0)" using Cons.prems(3) by (cases p) simp
  let ?aec1 = "aec\<lparr>farEndIndex := (farEndIndex aec + 1) mod FilterLength (config aec)\<rparr>"
  have wf1: "aec_wf ?aec1" using Cons.prems(1) by (simp add: aec_wf_def)
  have z1: "farEndBuffer ?aec1 = replicate (length (farEndBuffer ?aec1)) 0" using Cons.prems(2) by simp
  have rest: "\<forall>p \<in> set ps. snd p = 0" using Cons.prems(3) by simp
  have idx: "((farEndIndex aec + 1) mod FilterLength (config aec) + int (length ps)) mod FilterLength (config aec)
             = (farEndIndex aec + (1 + int (length ps))) mod FilterLength (config aec)"
    by (simp add: mod_simps add.assoc)
  show ?case
    using process_sample_silent [OF Cons.prems(1,2), of mic]
      Cons.IH [OF wf1 z1 rest, of "acc @ [clamp_unit (mic * EchoSuppression (config aec))]"]
    by (simp add: pp bindP_def idx)
qed

lemma ProcessFrame_silent:
  assumes "aec_wf aec" and "farEndBuffer aec = replicate (length (farEndBuffer aec)) 0"
  shows "AECProcessor_ProcessFrame aec micSignal (replicate (length micSignal) 0) =
           Inr (map (\<lambda>m. clamp_unit (m * EchoSuppression (config aec))) micSignal,
                aec\<lparr>farEndIndex := (farEndIndex aec + int (length micSignal)) mod FilterLength (config aec)\<rparr>,
                [])"
proof -
  have z: "\<forall>p \<in> set (zip micSignal (replicate (length micSignal) (0::real))). snd p = 0"
    by (auto simp: set_zip)
  have m: "map (\<lambda>p. clamp_unit (fst p * g)) (zip micSignal (replicate (length micSignal) (0::real)))
           = map (\<lambda>m. clamp_unit (m * g)) micSignal" for g
    by (induction micSignal) simp_all
  show ?thesis
    using frame_loop_silent [OF assms z, of "[]"]
    by (simp add: AECProcessor_ProcessFrame_def bindP_def m)
qed


lemma Reset_silent:
  "farEndBuffer (AECProcessor_Reset aec) = replicate (length (farEndBuffer (AECProcessor_Reset aec))) 0"
  by (simp add: AECProcessor_Reset_def map_replicate_const)

lemma process_sample_frozen:
  assumes "push_farEnd aec far = Inr aec1" and "window_power aec1 = Inr pw"
    and "pw \<le> aec_epsilon" and "process_sample aec mic far = Inr (aec2, out)"
  shows "aec2 = aec1"
  using assms
  by (auto simp: process_sample_def update_filter_def bindP_def Let_def split: sum.splits)

lemma clamp_unit_id: "\<bar>m\<bar> \<le> 1 \<Longrightarrow> clamp_unit m = m"
  by (auto simp: clamp_unit_def max_def min_def)

subsection \<open>Length mismatch\<close>

text \<open>
  Claim C8. When the two signals differ in length, \<open>ProcessFrame\<close> returns the
  microphone signal itself, reports the warning with both lengths, and leaves the
  processor (coefficients, reference history and write index) as it was; the result is a
  value, not a panic.
\<close>

theorem AECProcessor_ProcessFrame_length_mismatch:
  assumes "length micSignal \<noteq> length farEndSignal"
  shows "AECProcessor_ProcessFrame aec micSignal farEndSignal =
           Inr (micSignal, aec,
                [WarnSignalLengthMismatch (length micSignal) (length farEndSignal)])"
  using assms by (simp add: AECProcessor_ProcessFrame_def)

theorem AECProcessor_ProcessFrame_length_mismatch_witness:
  "length [1 / 2, 1 / 4 :: real] \<noteq> length [1 / 8 :: real] \<and>
   AECProcessor_ProcessFrame
     \<lparr>config = DefaultAECConfig, filter_coeffs = replicate 1024 (1 / 3),
      farEndBuffer = replicate 1024 (1 / 5), farEndIndex = 7\<rparr> [1 / 2, 1 / 4] [1 / 8] =
     Inr ([1 / 2, 1 / 4],
          \<lparr>config = DefaultAECConfig, filter_coeffs = replicate 1024 (1 / 3),
           farEndBuffer = replicate 1024 (1 / 5), farEndIndex = 7\<rparr>,
          [WarnSignalLengthMismatch 2 1])"
  using AECProcessor_ProcessFrame_length_mismatch
    [of "[1 / 2, 1 / 4]" "[1 / 8]"
        "\<lparr>config = DefaultAECConfig, filter_coeffs = replicate 1024 (1 / 3),
          farEndBuffer = replicate 1024 (1 / 5), farEndIndex = 7\<rparr>"]
  by simp

subsection \<open>The filter is frozen while the reference is silent\<close>

text \<open>
  Claim C7. In the body of the sample loop of a well-formed processor (every processor
  that the loop reaches is one), the far-end sample is pushed, the power of the reference
  window is computed, and whenever that power is at most \<open>1e-10\<close> the coefficients after
  the sample are the coefficients before it. In particular, when the reference signal is
  all zero, so that the window (the history as well as the frame) holds nothing but
  zeros, a whole call of \<open>ProcessFrame\<close> leaves the coefficients as they were.
\<close>

theorem filter_frozen_below_epsilon:
  assumes "aec_wf aec"
  shows "(\<exists>aec1 pw aec2 out.
            push_farEnd aec far = Inr aec1 \<and> window_power aec1 = Inr pw \<and>
            process_sample aec mic far = Inr (aec2, out) \<and>
            (pw \<le> aec_epsilon \<longrightarrow> filter_coeffs aec2 = filter_coeffs aec))
         \<and> (farEndBuffer aec = replicate (length (farEndBuffer aec)) 0 \<longrightarrow>
              (\<exists>output aec'.
                 AECProcessor_ProcessFrame aec micSignal (replicate (length micSignal) 0)
                   = Inr (output, aec', []) \<and>
                 filter_coeffs aec' = filter_coeffs aec))"
proof
  obtain aec1 where p: "push_farEnd aec far = Inr aec1"
    using push_farEnd_ok [OF assms] by blast
  have wf1: "aec_wf aec1" and f1: "filter_coeffs aec1 = filter_coeffs aec"
    using push_farEnd_wf [OF assms p] by simp_all
  obtain pw where pw: "window_power aec1 = Inr pw"
    unfolding window_power_def using power_loop_ok [OF wf1 upto_range] by blast
  obtain aec2 out where s: "process_sample aec mic far = Inr (aec2, out)"
    using process_sample_ok [OF assms] by blast
  have "pw \<le> aec_epsilon \<longrightarrow> filter_coeffs aec2 = filter_coeffs aec"
    using process_sample_frozen [OF p pw _ s] f1 by blast
  then show "\<exists>aec1 pw aec2 out.
            push_farEnd aec far = Inr aec1 \<and> window_power aec1 = Inr pw \<and>
            process_sample aec mic far = Inr (aec2, out) \<and>
            (pw \<le> aec_epsilon \<longrightarrow> filter_coeffs aec2 = filter_coeffs aec)"
    using p pw s by blast
next
  show "farEndBuffer aec = replicate (length (farEndBuffer aec)) 0 \<longrightarrow>
              (\<exists>output aec'.
                 AECProcessor_ProcessFrame aec micSignal (replicate (length micSignal) 0)
                   = Inr (output, aec', []) \<and>
                 filter_coeffs aec' = filter_coeffs aec)"
    using ProcessFrame_silent [OF assms, of micSignal] by simp
qed

theorem filter_frozen_below_epsilon_witness:
  "aec_wf \<lparr>config = DefaultAECConfig\<lparr>FilterLength := 2\<rparr>, filter_coeffs = [1 / 2, 1 / 4],
           farEndBuffer = [0, 0], farEndIndex = 0\<rparr> \<and>
   window_power \<lparr>config = DefaultAECConfig\<lparr>FilterLength := 2\<rparr>, filter_coeffs = [1 / 2, 1 / 4],
                 farEndBuffer = [1 / 10 ^ 6, 0], farEndIndex = 1\<rparr> = Inr (1 / 10 ^ 12) \<and>
   1 / 10 ^ 12 \<le> aec_epsilon \<and>
   (\<exists>aec2 out.
      process_sample \<lparr>config = DefaultAECConfig\<lparr>FilterLength := 2\<rparr>, filter_coeffs = [1 / 2, 1 / 4],
                      farEndBuffer = [0, 0], farEndIndex = 0\<rparr> 1 (1 / 10 ^ 6) = Inr (aec2, out) \<and>
      filter_coeffs aec2 = [1 / 2, 1 / 4]) \<and>
   (\<exists>output aec'.
      AECProcessor_ProcessFrame
        \<lparr>config = DefaultAECConfig\<lparr>FilterLength := 2\<rparr>, filter_coeffs = [1 / 2, 1 / 4],
         farEndBuffer = [0, 0], farEndIndex = 0\<rparr> [1, 1 / 2, 1 / 3] (replicate (length [1, 1 / 2, 1 / 3 :: real]) 0)
        = Inr (output, aec', []) \<and>
      filter_coeffs aec' = [1 / 2, 1 / 4])"
proof -
  let ?A = "\<lparr>config = DefaultAECConfig\<lparr>FilterLength := 2\<rparr>, filter_coeffs = [1 / 2, 1 / 4],
             farEndBuffer = [0, 0], farEndIndex = 0\<rparr>"
  let ?A1 = "\<lparr>config = DefaultAECConfig\<lparr>FilterLength := 2\<rparr>, filter_coeffs = [1 / 2, 1 / 4],
             farEndBuffer = [1 / 10 ^ 6, 0], farEndIndex = 1\<rparr>"
  have wf: "aec_wf ?A" by (simp add: aec_wf_def DefaultAECConfig_def)
  have push: "push_farEnd ?A (1 / 10 ^ 6) = Inr ?A1"
    by (simp add: push_farEnd_def go_store_def go_rem_def bindP_def DefaultAECConfig_def)
  have up: "[0 .. 1] = [0, 1::int]" by (simp add: upto.simps)
  have pw: "window_power ?A1 = Inr (1 / 10 ^ 12)"
    by (simp add: window_power_def DefaultAECConfig_def up bufferIndex_def go_rem_def
        go_index_def bindP_def)
  have le: "(1 / 10 ^ 12 :: real) \<le> aec_epsilon" by (simp add: aec_epsilon_def)
  have z: "farEndBuffer ?A = replicate (length (farEndBuffer ?A)) 0" by (simp add: numeral_2_eq_2)
  from filter_frozen_below_epsilon [OF wf, of "1 / 10 ^ 6" 1 "[1, 1 / 2, 1 / 3]"]
  show ?thesis using wf pw le push z by auto
qed

subsection \<open>Reset, then a frame with an all-zero reference\<close>

text \<open>
  Claim C4, as the code has it. After \<open>Reset\<close>, a frame with an all-zero reference of
  the same length has echo estimate 0 at every sample, so that sample \<open>i\<close> of the
  output is \<open>clamp(mic[i] \<sqdot> EchoSuppression, -1, 1)\<close>; coefficients and history stay
  zero. The output is the input when the suppression gain is 1 and no sample exceeds 1
  in magnitude.
\<close>

theorem Reset_ProcessFrame_zero_reference:
  assumes "aec_wf aec"
  shows "\<exists>aec'.
           AECProcessor_ProcessFrame (AECProcessor_Reset aec) micSignal
               (replicate (length micSignal) 0)
             = Inr (map (\<lambda>m. clamp_unit (m * EchoSuppression (config aec))) micSignal, aec', [])
           \<and> filter_coeffs aec' = replicate (length (filter_coeffs aec)) 0
           \<and> farEndBuffer aec' = replicate (length (farEndBuffer aec)) 0
           \<and> (EchoSuppression (config aec) = 1 \<and> (\<forall>m \<in> set micSignal. \<bar>m\<bar> \<le> 1) \<longrightarrow>
                map (\<lambda>m. clamp_unit (m * EchoSuppression (config aec))) micSignal = micSignal)"
proof -
  let ?R = "AECProcessor_Reset aec"
  have wf: "aec_wf ?R" using assms by (rule AECProcessor_Reset_wf)
  have c: "config ?R = config aec" by (simp add: AECProcessor_Reset_def)
  have f: "filter_coeffs ?R = replicate (length (filter_coeffs aec)) 0"
    and b: "farEndBuffer ?R = replicate (length (farEndBuffer aec)) 0"
    by (simp_all add: AECProcessor_Reset_def map_replicate_const)
  have id: "map (\<lambda>m. clamp_unit (m * 1)) micSignal = micSignal"
    if "\<forall>m \<in> set micSignal. \<bar>m\<bar> \<le> 1"
    using that by (induction micSignal) (simp_all add: clamp_unit_id)
  show ?thesis
    using ProcessFrame_silent [OF wf Reset_silent, of micSignal] c f b id by auto
qed

theorem Reset_ProcessFrame_zero_reference_witness:
  "aec_wf \<lparr>config = DefaultAECConfig\<lparr>EchoSuppression := 1\<rparr>, filter_coeffs = replicate 1024 (1 / 3),
           farEndBuffer = replicate 1024 (1 / 5), farEndIndex = 7\<rparr> \<and>
   EchoSuppression (DefaultAECConfig\<lparr>EchoSuppression := 1\<rparr>) = 1 \<and>
   \<bar>1 / 2 :: real\<bar> \<le> 1 \<and> \<bar>- 1 / 4 :: real\<bar> \<le> 1 \<and>
   (\<exists>aec'.
      AECProcessor_ProcessFrame
        (AECProcessor_Reset
           \<lparr>config = DefaultAECConfig\<lparr>EchoSuppression := 1\<rparr>, filter_coeffs = replicate 1024 (1 / 3),
            farEndBuffer = replicate 1024 (1 / 5), farEndIndex = 7\<rparr>)
        [1 / 2, - 1 / 4] (replicate (length [1 / 2, - 1 / 4 :: real]) 0)
      = Inr ([1 / 2, - 1 / 4], aec', []))"
proof -
  let ?A = "\<lparr>config = DefaultAECConfig\<lparr>EchoSuppression := 1\<rparr>, filter_coeffs = replicate 1024 (1 / 3),
            farEndBuffer = replicate 1024 (1 / 5), farEndIndex = 7\<rparr>"
  have wf: "aec_wf ?A" by (simp add: aec_wf_def DefaultAECConfig_def)
  from Reset_ProcessFrame_zero_reference [OF wf, of "[1 / 2, - 1 / 4]"]
  show ?thesis using wf by (auto simp: clamp_unit_def)
qed

text \<open>
  Claim C4, as stated, fails: with the default configuration (suppression gain
  \<open>0.7\<close>) the input sample \<open>0.5\<close> comes out as \<open>0.35\<close>, off by 30 percent of the
  input, although the echo estimate is 0.
\<close>

theorem Reset_ProcessFrame_not_identity_counterexample:
  "NewAECProcessor DefaultAECConfig =
     Inr \<lparr>config = DefaultAECConfig, filter_coeffs = replicate 1024 0,
          farEndBuffer = replicate 1024 0, farEndIndex = 0\<rparr> \<and>
   AECProcessor_ProcessFrame
     (AECProcessor_Reset
        \<lparr>config = DefaultAECConfig, filter_coeffs = replicate 1024 0,
         farEndBuffer = replicate 1024 0, farEndIndex = 0\<rparr>)
     [1 / 2] [0]
   = Inr ([7 / 20],
          \<lparr>config = DefaultAECConfig, filter_coeffs = replicate 1024 0,
           farEndBuffer = replicate 1024 0, farEndIndex = 1\<rparr>, []) \<and>
   \<bar>7 / 20 - 1 / 2 :: real\<bar> = 3 / 20"
proof -
  let ?A = "\<lparr>config = DefaultAECConfig, filter_coeffs = replicate 1024 0,
            farEndBuffer = replicate 1024 0, farEndIndex = 0\<rparr>"
  have wf: "aec_wf ?A" by (simp add: aec_wf_def DefaultAECConfig_def)
  have z: "farEndBuffer ?A = replicate (length (farEndBuffer ?A)) 0" by simp
  have n: "NewAECProcessor DefaultAECConfig = Inr ?A"
    by (simp add: NewAECProcessor_def DefaultAECConfig_def)
  have r: "AECProcessor_Reset ?A = ?A" by (simp add: AECProcessor_Reset_def)
  have "AECProcessor_ProcessFrame ?A [1 / 2] (replicate (length [1 / 2 :: real]) 0)
        = Inr ([7 / 20], ?A\<lparr>farEndIndex := 1\<rparr>, [])"
    using ProcessFrame_silent [OF wf z, of "[1 / 2]"]
    by (simp add: DefaultAECConfig_def clamp_unit_def)
  then show ?thesis using n r by simp
qed


section \<open>Properties of the processing pipeline\<close>

subsection \<open>Muting outside the padded segments\<close>


lemma mark_range_spec:
  assumes "\<forall>j \<in> set js. 0 \<le> j \<and> j < int (length km)"
  shows "\<exists>km'. mark_range km js = Inr km' \<and> length km' = length km \<and>
           (\<forall>i < length km. km' ! i = (km ! i \<or> int i \<in> set js))"
  using assms
proof (induction js arbitrary: km)
  case Nil
  then show ?case by simp
next
  case (Cons j js)
  then have j: "0 \<le> j" "j < int (length km)" by simp_all
  have st: "go_store km j True = Inr (km[nat j := True])" using j by (simp add: go_store_def)
  have "\<forall>j' \<in> set js. 0 \<le> j' \<and> j' < int (length (km[nat j := True]))" using Cons.prems by simp
  from Cons.IH [OF this] obtain km' where
    r: "mark_range (km[nat j := True]) js = Inr km'" "length km' = length km"
       "\<forall>i < length km. km' ! i = (km[nat j := True] ! i \<or> int i \<in> set js)"
    by auto
  have "km' ! i = (km ! i \<or> int i \<in> set (j # js))" if "i < length km" for i
  proof -
    have "(i = nat j) = (int i = j)" using j(1) by auto
    then show ?thesis using r(3) that by (auto simp: nth_list_update)
  qed
  then show ?case using st r(1,2) by (simp add: bindP_def)
qed

lemma mark_segments_spec:
  assumes "n = length km"
  shows "\<exists>km'. mark_segments sr pad (int n) segs km = Inr km' \<and>
           length km' = length km \<and>
           (\<forall>i < length km.
              km' ! i =
                (km ! i \<or>
                 (\<exists>seg \<in> set segs.
                    max 0 (go_int (Start seg * sr / 1000) - pad) \<le> int i \<and>
                    int i < min (int n) (go_int (End seg * sr / 1000) + pad))))"
  using assms
proof (induction segs arbitrary: km)
  case Nil
  then show ?case by simp
next
  case (Cons seg segs)
  define lo where "lo = max 0 (go_int (Start seg * sr / 1000) - pad)"
  define hi where "hi = min (int n) (go_int (End seg * sr / 1000) + pad)"
  have rng: "\<forall>j \<in> set [lo .. hi - 1]. 0 \<le> j \<and> j < int (length km)"
    using Cons.prems by (auto simp: lo_def hi_def)
  from mark_range_spec [OF rng] obtain km1 where
    m: "mark_range km [lo .. hi - 1] = Inr km1" "length km1 = length km"
       "\<forall>i < length km. km1 ! i = (km ! i \<or> int i \<in> set [lo .. hi - 1])"
    by auto
  have n1: "n = length km1" using Cons.prems m(2) by simp
  from Cons.IH [OF n1] obtain km' where
    r: "mark_segments sr pad (int n) segs km1 = Inr km'"
       "length km' = length km1"
       "\<forall>i < length km1. km' ! i =
          (km1 ! i \<or> (\<exists>seg \<in> set segs.
              max 0 (go_int (Start seg * sr / 1000) - pad) \<le> int i \<and>
              int i < min (int n) (go_int (End seg * sr / 1000) + pad)))"
    by auto
  have lo: "(if go_int (Start seg * sr / 1000) - pad < 0 then 0
             else go_int (Start seg * sr / 1000) - pad) = lo"
    by (simp add: lo_def max_def)
  have hi: "(if go_int (End seg * sr / 1000) + pad > int n then int n
             else go_int (End seg * sr / 1000) + pad) = hi"
    by (simp add: hi_def min_def)
  have run: "mark_segments sr pad (int n) (seg # segs) km = Inr km'"
    unfolding mark_segments.simps Let_def lo hi m(1) bindP_def using r(1) by simp
  have "km' ! i = (km ! i \<or> (\<exists>s \<in> set (seg # segs).
              max 0 (go_int (Start s * sr / 1000) - pad) \<le> int i \<and>
              int i < min (int n) (go_int (End s * sr / 1000) + pad)))" if "i < length km" for i
  proof -
    have "int i \<in> set [lo .. hi - 1] \<longleftrightarrow> lo \<le> int i \<and> int i < hi" by auto
    then show ?thesis using that r(3) m(2,3) unfolding lo_def hi_def by auto
  qed
  then show ?case using run r(2) m(2) by simp
qed

text \<open>
  Claim C2. For every buffer and every list of segments, the muting step returns a
  buffer of the same length; a sample whose index lies in the kept range of some
  segment, from \<open>keptStart\<close> up to but not including \<open>keptEnd\<close>, is the sample of the
  input, and every other sample is 0. The kept ranges of several segments act as their
  union. The input buffer is a value and is not changed.
\<close>

theorem muteNonVoice_keeps_padded_segments:
  "\<exists>muted. muteNonVoice sampleRate segs buf = Inr muted \<and> length muted = length buf \<and>
     (\<forall>i < length buf.
        muted ! i =
          (if \<exists>seg \<in> set segs. in_kept_range sampleRate (length buf) seg i then buf ! i else 0))"
proof -
  from mark_segments_spec [of "length buf" "replicate (length buf) False" "real_of_int sampleRate"
      "go_int (200 * real_of_int sampleRate / 1000)" segs]
  obtain km where
    k: "mark_segments (real_of_int sampleRate) (go_int (200 * real_of_int sampleRate / 1000)) (int (length buf)) segs
          (replicate (length buf) False) = Inr km"
       "length km = length buf"
       "\<forall>i < length buf. km ! i = (\<exists>seg \<in> set segs. in_kept_range sampleRate (length buf) seg i)"
    unfolding in_kept_range_def keptStart_def keptEnd_def by auto
  have "muteNonVoice sampleRate segs buf = Inr (map2 (\<lambda>s keep. if \<not> keep then 0 else s) buf km)"
    unfolding muteNonVoice_def Let_def k(1) bindP_def by simp
  moreover have "map2 (\<lambda>s keep. if \<not> keep then 0 else s) buf km ! i =
        (if \<exists>seg \<in> set segs. in_kept_range sampleRate (length buf) seg i then buf ! i else 0)"
    if "i < length buf" for i
    using that k(2,3) by simp
  ultimately show ?thesis using k(2) by simp
qed

theorem muteNonVoice_keeps_padded_segments_witness:
  "\<exists>muted.
     muteNonVoice 16000 [\<lparr>Start = 0, End = 16, Duration = 16\<rparr>, \<lparr>Start = 48, End = 64, Duration = 16\<rparr>]
       (replicate 8000 (1 / 2)) = Inr muted \<and>
     length muted = 8000 \<and>
     in_kept_range 16000 8000 \<lparr>Start = 0, End = 16, Duration = 16\<rparr> 3455 \<and>
     \<not> in_kept_range 16000 8000 \<lparr>Start = 0, End = 16, Duration = 16\<rparr> 3456 \<and>
     in_kept_range 16000 8000 \<lparr>Start = 48, End = 64, Duration = 16\<rparr> 3456 \<and>
     muted ! 3455 = 1 / 2 \<and> muted ! 3456 = 1 / 2 \<and> muted ! 4223 = 1 / 2 \<and>
     muted ! 4224 = 0 \<and> muted ! 7999 = 0"
proof -
  let ?s1 = "\<lparr>Start = 0, End = 16, Duration = 16\<rparr>"
  let ?s2 = "\<lparr>Start = 48, End = 64, Duration = 16\<rparr>"
  from muteNonVoice_keeps_padded_segments [of 16000 "[?s1, ?s2]" "replicate 8000 (1 / 2)"]
  obtain muted where
    m: "muteNonVoice 16000 [?s1, ?s2] (replicate 8000 (1 / 2)) = Inr muted"
       "length muted = 8000"
       "\<forall>i < 8000. muted ! i =
          (if in_kept_range 16000 8000 ?s1 i \<or> in_kept_range 16000 8000 ?s2 i
           then replicate 8000 (1 / 2) ! i else 0)"
    by auto
  have r: "in_kept_range 16000 8000 ?s1 i \<longleftrightarrow> i < 3456"
          "in_kept_range 16000 8000 ?s2 i \<longleftrightarrow> i < 4224" for i
    by (auto simp: in_kept_range_def keptStart_def keptEnd_def go_int_def)
  have "muted ! 3455 = 1 / 2" "muted ! 3456 = 1 / 2" "muted ! 4223 = 1 / 2"
       "muted ! 4224 = 0" "muted ! 7999 = 0"
    using m(3) by (simp_all add: r)
  then show ?thesis using m(1,2) by (simp add: r)
qed

subsection \<open>A silent buffer has no voice segment\<close>


lemma voiceProbability_silent: "voiceProbability cfg (replicate n 0) \<le> 3 / 10"
proof -
  have e: "energyScore cfg (replicate n 0) = 0"
    by (simp add: energyScore_def calculateEnergy_def energy_sum_replicate Let_def)
  have z: "zcrScore cfg (replicate n 0) \<le> 1"
    by (simp add: zcrScore_def calculateZCR_replicate Let_def)
  have c: "spectralScore (replicate n 0) = 0"
    by (simp add: spectralScore_def calculateSpectralCentroid_def centroid_sums_replicate Let_def)
  show ?thesis using z by (simp add: voiceProbability_def e c)
qed

lemma ProcessFrame_silent_frame:
  "3 / 10 \<le> VoiceThreshold cfg \<Longrightarrow> \<not> VADProcessor_ProcessFrame cfg (replicate n 0)"
  using voiceProbability_silent [of cfg n] by (simp add: VADProcessor_ProcessFrame_def)

lemma segments_loop_no_voice:
  "\<forall>p \<in> set ps. \<not> snd p \<Longrightarrow> segments_loop d ps segs False s = (segs, False, s)"
  by (induction ps arbitrary: segs s) auto

lemma GetVoiceSegments_silent:
  assumes "0 < Overlap cfg" and "Overlap cfg < FrameSize cfg" and "3 / 10 \<le> VoiceThreshold cfg"
  shows "GetVoiceSegments cfg (replicate n 0) = Inr []"
proof -
  from IsVoiceDetected_frames [OF assms(1,2), of "replicate n 0"]
  obtain va where
    v: "IsVoiceDetected cfg (replicate n 0) = Inr va"
       "\<forall>k < length va. va ! k =
          VADProcessor_ProcessFrame cfg
            (take (nat (FrameSize cfg)) (drop (k * nat (Overlap cfg)) (replicate n 0)))"
    by blast
  have "\<not> va ! k" if "k < length va" for k
    using v(2) that ProcessFrame_silent_frame [OF assms(3)] by simp
  then have "\<forall>p \<in> set (zip (map int [0 ..< length va]) va). \<not> snd p"
    by (auto simp: set_zip)
  then have "segments_loop d (zip (map int [0 ..< length va]) va) [] False 0 = ([], False, 0)" for d
    by (rule segments_loop_no_voice)
  then show ?thesis using v(1) by (simp add: GetVoiceSegments_def bindP_def Let_def)
qed

subsection \<open>No voice, no transcription\<close>

text \<open>
  Claim C1. With a VAD processor present, when \<open>GetVoiceSegments\<close> returns no segment
  for the samples that leave the echo-cancellation stage, \<open>processAudio\<close> ends with
  \<open>NoVoiceDetected\<close>: it returns before the call of \<open>Transcribe\<close>. The witness is the
  end-to-end example of the specification, three seconds of zeros at 16 kHz.
\<close>

theorem processAudio_no_voice_skips_transcription:
  assumes "vadProc app = Some vad"
    and "applyAEC (app\<lparr>isProcessing := True\<rparr>) samples' loopbackSamples = Inr (processedSamples, app1)"
    and "GetVoiceSegments vad processedSamples = Inr []"
  shows "processAudio app samples' loopbackSamples =
           Inr (NoVoiceDetected, app1\<lparr>isProcessing := False\<rparr>)"
proof -
  have "vadProc app1 = vadProc app"
    using assms(2)
    by (auto simp: applyAEC_def bindP_def Let_def split: option.splits if_splits sum.splits)
  then show ?thesis using assms by (simp add: processAudio_def bindP_def)
qed

theorem processAudio_no_voice_skips_transcription_witness:
  "vadProc \<lparr>SampleRate = 16000,
            recorder = \<lparr>deviceName = None, device = None, recording = False, samples = []\<rparr>,
            loopbackRec = None, aecProc = None, vadProc = Some DefaultVADConfig,
            isRecording = False, isProcessing = False\<rparr> = Some DefaultVADConfig \<and>
   GetVoiceSegments DefaultVADConfig (replicate 48000 0) = Inr [] \<and>
   processAudio
     \<lparr>SampleRate = 16000,
      recorder = \<lparr>deviceName = None, device = None, recording = False, samples = []\<rparr>,
      loopbackRec = None, aecProc = None, vadProc = Some DefaultVADConfig,
      isRecording = False, isProcessing = False\<rparr> (replicate 48000 0) [] =
     Inr (NoVoiceDetected,
          \<lparr>SampleRate = 16000,
           recorder = \<lparr>deviceName = None, device = None, recording = False, samples = []\<rparr>,
           loopbackRec = None, aecProc = None, vadProc = Some DefaultVADConfig,
           isRecording = False, isProcessing = False\<rparr>)"
proof -
  let ?A = "\<lparr>SampleRate = 16000,
      recorder = \<lparr>deviceName = None, device = None, recording = False, samples = []\<rparr>,
      loopbackRec = None, aecProc = None, vadProc = Some DefaultVADConfig,
      isRecording = False, isProcessing = False\<rparr>"
  have v: "vadProc ?A = Some DefaultVADConfig" by simp
  have a: "applyAEC (?A\<lparr>isProcessing := True\<rparr>) (replicate 48000 0) [] =
             Inr (replicate 48000 0, ?A\<lparr>isProcessing := True\<rparr>)"
    by (simp add: applyAEC_def)
  have g: "GetVoiceSegments DefaultVADConfig (replicate 48000 0) = Inr []"
    by (rule GetVoiceSegments_silent) (simp_all add: DefaultVADConfig_def)
  from processAudio_no_voice_skips_transcription [OF v a g]
  show ?thesis using g by simp
qed


section \<open>Properties of the capture callbacks\<close>

subsection \<open>Byte offsets in \<open>uint32\<close>\<close>


lemma or_disj1:
  fixes b0 b1 b2 b3 :: "8 word"
  shows "(ucast b0 :: 32 word) OR push_bit 8 (ucast b1) OR push_bit 16 (ucast b2) OR push_bit 24 (ucast b3)
      = (ucast b0 :: 32 word) + (push_bit 8 (ucast b1) + (push_bit 16 (ucast b2) + push_bit 24 (ucast b3)))"
proof -
  have lt: "bit b n \<Longrightarrow> n < 8" for b :: "8 word" and n
    using bit_imp_le_length [of b n] by simp
  have 1: "push_bit 16 (ucast b2 :: 32 word) + push_bit 24 (ucast b3) = push_bit 16 (ucast b2) OR push_bit 24 (ucast b3)"
    by (rule disjunctive_add) (auto simp: bit_simps dest: lt)
  have 2: "push_bit 8 (ucast b1 :: 32 word) + (push_bit 16 (ucast b2) OR push_bit 24 (ucast b3))
         = push_bit 8 (ucast b1) OR (push_bit 16 (ucast b2) OR push_bit 24 (ucast b3))"
    by (rule disjunctive_add) (auto simp: bit_simps dest: lt)
  have 3: "(ucast b0 :: 32 word) + (push_bit 8 (ucast b1) OR (push_bit 16 (ucast b2) OR push_bit 24 (ucast b3)))
         = ucast b0 OR (push_bit 8 (ucast b1) OR (push_bit 16 (ucast b2) OR push_bit 24 (ucast b3)))"
    by (rule disjunctive_add) (auto simp: bit_simps dest: lt)
  show ?thesis by (simp add: 1 2 3 ac_simps)
qed

lemma ucast_of_nat_unat: "(ucast (b :: 8 word) :: 32 word) = word_of_nat (unat b)"
  by simp

lemma unat_times4_bound: "unat ((i :: 32 word) * 4) \<le> 2 ^ 32 - 4"
proof -
  have "unat (i * 4) = (4 * unat i) mod (4 * 2 ^ 30)"
    by (simp add: unat_word_ariths mult.commute)
  also have "\<dots> = 4 * (unat i mod 2 ^ 30)"
    by (simp only: mult_mod_right)
  finally have e: "unat (i * 4) = 4 * (unat i mod 2 ^ 30)" .
  have "unat i mod 2 ^ 30 < (2 ^ 30 :: nat)" by simp
  then have "4 * (unat i mod 2 ^ 30) \<le> (2 ^ 32 - 4 :: nat)" by simp
  then show ?thesis using e by simp
qed

lemma unat_idx_plus:
  assumes "k \<le> 3"
  shows "unat ((i :: 32 word) * 4 + word_of_nat k) = unat (i * 4) + k"
proof -
  have "unat (i * 4) + k < 2 ^ 32" using unat_times4_bound [of i] assms by simp
  moreover have "unat (word_of_nat k :: 32 word) = k" using assms by (simp add: unat_of_nat)
  ultimately show ?thesis by (simp add: unat_word_ariths)
qed

lemma unat_len_le: "unat (word_of_nat n :: 32 word) \<le> n"
  by (simp add: unat_of_nat)



lemma push_ucast:
  "push_bit n (ucast (b :: 8 word) :: 32 word) = word_of_nat (unat b * 2 ^ n)"
proof -
  have "push_bit n (ucast b :: 32 word) = ucast b * 2 ^ n" by (rule push_bit_eq_mult)
  also have "\<dots> = word_of_nat (unat b) * word_of_nat (2 ^ n)" by simp
  also have "\<dots> = word_of_nat (unat b * 2 ^ n)" by (simp only: of_nat_mult)
  finally show ?thesis .
qed

lemma le_or_add:
  fixes b0 b1 b2 b3 :: "8 word"
  shows "(ucast b0 :: 32 word) OR push_bit 8 (ucast b1) OR push_bit 16 (ucast b2) OR push_bit 24 (ucast b3)
       = word_of_nat (unat b0 + 256 * unat b1 + 65536 * unat b2 + 16777216 * unat b3)"
proof -
  have "(ucast b0 :: 32 word) + (push_bit 8 (ucast b1) + (push_bit 16 (ucast b2) + push_bit 24 (ucast b3)))
      = word_of_nat (unat b0) + (word_of_nat (unat b1 * 2 ^ 8) + (word_of_nat (unat b2 * 2 ^ 16) + word_of_nat (unat b3 * 2 ^ 24)))"
    by (simp only: push_ucast) (simp only: ucast_of_nat_unat)
  also have "\<dots> = word_of_nat (unat b0 + (unat b1 * 2 ^ 8 + (unat b2 * 2 ^ 16 + unat b3 * 2 ^ 24)))"
    by (simp only: of_nat_add)
  also have "unat b0 + (unat b1 * 2 ^ 8 + (unat b2 * 2 ^ 16 + unat b3 * 2 ^ 24))
           = unat b0 + 256 * unat b1 + 65536 * unat b2 + 16777216 * unat b3"
    by simp
  finally show ?thesis by (simp only: or_disj1)
qed


subsection \<open>Decoding a frame\<close>


lemma decode_sample_reads:
  assumes "i * 4 + 3 < (word_of_nat (length p) :: 32 word)"
  shows "decode_sample p i =
           Inr (le_bits32 (p ! unat (i * 4)) (p ! (unat (i * 4) + 1)) (p ! (unat (i * 4) + 2))
                  (p ! (unat (i * 4) + 3)))
         \<and> unat (i * 4) + 3 < length p"
proof -
  have u: "unat (i * 4 + 1) = unat (i * 4) + 1" "unat (i * 4 + 2) = unat (i * 4) + 2"
          "unat (i * 4 + 3) = unat (i * 4) + 3"
    using unat_idx_plus [of 1 i] unat_idx_plus [of 2 i] unat_idx_plus [of 3 i] by simp_all
  have "unat (i * 4 + 3) < unat (word_of_nat (length p) :: 32 word)"
    using assms by (simp add: word_less_nat_alt)
  then have b: "unat (i * 4) + 3 < length p"
    using unat_len_le [of "length p"] u(3) by linarith
  then have r: "index_u32 p (i * 4) = Inr (p ! unat (i * 4))"
       "index_u32 p (i * 4 + 1) = Inr (p ! (unat (i * 4) + 1))"
       "index_u32 p (i * 4 + 2) = Inr (p ! (unat (i * 4) + 2))"
       "index_u32 p (i * 4 + 3) = Inr (p ! (unat (i * 4) + 3))"
    by (simp_all add: index_u32_def u)
  show ?thesis
    using assms b unfolding decode_sample_def Let_def r bindP_def le_bits32_def
    by (simp add: le_or_add)
qed

lemma decode_sample_total: "\<exists>s. decode_sample p i = Inr s"
proof (cases "i * 4 + 3 < (word_of_nat (length p) :: 32 word)")
  case True
  then show ?thesis using decode_sample_reads [OF True] by blast
next
  case False
  then show ?thesis by (simp add: decode_sample_def Let_def)
qed

lemma decode_sample_value:
  assumes "i < 2 ^ 30" and "length p < 2 ^ 32"
  shows "decode_sample p (word_of_nat i) =
           Inr (if 4 * i + 3 < length p
                then le_bits32 (p ! (4 * i)) (p ! (4 * i + 1)) (p ! (4 * i + 2)) (p ! (4 * i + 3))
                else 0)"
proof -
  have i4: "unat (word_of_nat i * 4 :: 32 word) = 4 * i"
  proof -
    have "(word_of_nat i * 4 :: 32 word) = word_of_nat (4 * i)" by simp
    moreover have "4 * i < 2 ^ 32" using assms(1) by simp
    ultimately show ?thesis by (simp only: unat_of_nat) simp
  qed
  have i43: "unat (word_of_nat i * 4 + 3 :: 32 word) = 4 * i + 3"
    using unat_idx_plus [of 3 "word_of_nat i"] i4 by simp
  have len: "unat (word_of_nat (length p) :: 32 word) = length p"
    using assms(2) by (simp add: unat_of_nat)
  have c: "(word_of_nat i * 4 + 3 < (word_of_nat (length p) :: 32 word)) = (4 * i + 3 < length p)"
    by (simp add: word_less_nat_alt i43 len)
  show ?thesis
  proof (cases "4 * i + 3 < length p")
    case True
    then have "word_of_nat i * 4 + 3 < (word_of_nat (length p) :: 32 word)" using c by simp
    from decode_sample_reads [OF this] show ?thesis using True by (simp add: i4)
  next
    case False
    then have "\<not> word_of_nat i * 4 + 3 < (word_of_nat (length p) :: 32 word)" using c by simp
    then show ?thesis using False by (simp add: decode_sample_def Let_def)
  qed
qed

lemma decode_loop_total: "\<exists>new. decode_loop p js = Inr new \<and> length new = length js"
proof (induction js)
  case Nil
  then show ?case by simp
next
  case (Cons j js)
  obtain s where "decode_sample p (word_of_nat j) = Inr s"
    using decode_sample_total by blast
  then show ?case using Cons by (auto simp: bindP_def)
qed

lemma decode_loop_value:
  assumes "\<forall>j \<in> set js. j < 2 ^ 30" and "length p < 2 ^ 32"
  shows "decode_loop p js =
           Inr (map (\<lambda>i. if 4 * i + 3 < length p
                          then le_bits32 (p ! (4 * i)) (p ! (4 * i + 1)) (p ! (4 * i + 2))
                                 (p ! (4 * i + 3))
                          else 0) js)"
  using assms(1)
proof (induction js)
  case Nil
  then show ?case by simp
next
  case (Cons j js)
  then have "j < 2 ^ 30" by simp
  from decode_sample_value [OF this assms(2)] Cons show ?case by (simp add: bindP_def)
qed

lemma decode_frames_value:
  assumes "unat framecount \<le> 2 ^ 30" and "length p < 2 ^ 32"
  shows "\<exists>new. decode_frames p framecount = Inr new \<and> length new = unat framecount \<and>
           (\<forall>i < unat framecount.
              new ! i =
                (if 4 * i + 3 < length p
                 then le_bits32 (p ! (4 * i)) (p ! (4 * i + 1)) (p ! (4 * i + 2)) (p ! (4 * i + 3))
                 else 0))"
proof -
  have "\<forall>j \<in> set [0 ..< unat framecount]. j < 2 ^ 30" using assms(1) by auto
  from decode_loop_value [OF this assms(2)] show ?thesis by (simp add: decode_frames_def)
qed

text \<open>
  Claim C10. While the recorder is recording, every call of the callback returns
  without a panic and appends exactly \<open>framecount\<close> samples. For a call with at most
  \<open>2 ^ 30\<close> frames and fewer than \<open>2 ^ 32\<close> bytes, where the \<open>uint32\<close> offsets
  \<open>4i\<close> and \<open>4i + 3\<close> and the length do not wrap, appended sample \<open>i\<close> is the
  little-endian value of the bytes \<open>4i .. 4i + 3\<close> when \<open>4i + 3 < len\<close> and 0
  otherwise, so a short payload is padded with zero samples.
\<close>

theorem Recorder_onRecvFrames_appends:
  assumes "recording r"
  shows "\<exists>new.
           Recorder_onRecvFrames r pSample2 pSample framecount = Inr (r\<lparr>samples := samples r @ new\<rparr>) \<and>
           length new = unat framecount \<and>
           (unat framecount \<le> 2 ^ 30 \<and> length pSample < 2 ^ 32 \<longrightarrow>
            (\<forall>i < unat framecount.
               new ! i =
                 (if 4 * i + 3 < length pSample
                  then le_bits32 (pSample ! (4 * i)) (pSample ! (4 * i + 1)) (pSample ! (4 * i + 2))
                         (pSample ! (4 * i + 3))
                  else 0)))"
proof -
  obtain new where n: "decode_frames pSample framecount = Inr new" "length new = unat framecount"
    using decode_loop_total [of pSample "[0 ..< unat framecount]"] by (auto simp: decode_frames_def)
  have "\<forall>i < unat framecount.
               new ! i =
                 (if 4 * i + 3 < length pSample
                  then le_bits32 (pSample ! (4 * i)) (pSample ! (4 * i + 1)) (pSample ! (4 * i + 2))
                         (pSample ! (4 * i + 3))
                  else 0)"
    if "unat framecount \<le> 2 ^ 30" "length pSample < 2 ^ 32"
    using decode_frames_value [OF that] n(1) by auto
  then show ?thesis using n assms by (auto simp: Recorder_onRecvFrames_def bindP_def)
qed

theorem Recorder_onRecvFrames_appends_witness:
  "recording \<lparr>deviceName = None, device = None, recording = True, samples = [5 :: 32 word]\<rparr> \<and>
   unat (2 :: 32 word) \<le> 2 ^ 30 \<and> length [0, 0, 128, 63, 1, 2 :: 8 word] < 2 ^ 32 \<and>
   Recorder_onRecvFrames
     \<lparr>deviceName = None, device = None, recording = True, samples = [5]\<rparr> []
     [0, 0, 128, 63, 1, 2] 2
   = Inr \<lparr>deviceName = None, device = None, recording = True, samples = [5, 1065353216, 0]\<rparr>"
proof -
  let ?R = "\<lparr>deviceName = None, device = None, recording = True, samples = [5 :: 32 word]\<rparr>"
  let ?P = "[0, 0, 128, 63, 1, 2 :: 8 word]"
  have rec: "recording ?R" by simp
  from Recorder_onRecvFrames_appends [OF rec, of "[]" ?P 2]
  obtain new where
    n: "Recorder_onRecvFrames ?R [] ?P 2 = Inr (?R\<lparr>samples := samples ?R @ new\<rparr>)"
       "length new = 2"
       "\<forall>i < 2. new ! i =
          (if 4 * i + 3 < length ?P
           then le_bits32 (?P ! (4 * i)) (?P ! (4 * i + 1)) (?P ! (4 * i + 2)) (?P ! (4 * i + 3))
           else 0)"
    by auto
  have "new ! 0 = 1065353216" "new ! 1 = 0"
    using n(3) by (simp_all add: le_bits32_def)
  moreover have "new = [new ! 0, new ! 1]"
    using n(2) by (cases new; cases "tl new") auto
  ultimately have "new = [1065353216, 0]" by simp
  then show ?thesis using n(1) by simp
qed

section \<open>Properties of the loopback recorder\<close>


lemma try_monitors_recording:
  "try_monitors lr ds = (e, lr') \<Longrightarrow> lr_recording lr' = lr_recording lr"
proof (induction ds arbitrary: lr)
  case Nil
  then show ?case by auto
next
  case (Cons d ds)
  show ?case
  proof (cases "initOk d \<and> startOk d")
    case True
    then show ?thesis using Cons.prems by auto
  next
    case False
    then have "try_monitors (lr\<lparr>lr_device := None\<rparr>) ds = (e, lr')"
      using Cons.prems by (auto split: if_splits)
    from Cons.IH [OF this] show ?thesis by simp
  qed
qed

lemma LoopbackRecorder_Start_success_not_recording:
  assumes "LoopbackRecorder_Start env lr = (None, lr')"
  shows "\<not> lr_recording lr'"
proof -
  have nr: "\<not> lr_recording lr" using assms by (auto simp: LoopbackRecorder_Start_def)
  obtain ds where "try_monitors (lr\<lparr>lr_samples := []\<rparr>) ds = (None, lr')"
    using assms nr
    by (auto simp: LoopbackRecorder_Start_def Let_def split: option.splits if_splits)
  from try_monitors_recording [OF this] show ?thesis using nr by simp
qed

lemma monitor_name: "isMonitorDevice \<lparr>devName = ''Speaker Monitor'', initOk = True, startOk = True\<rparr>"
  by (simp add: isMonitorDevice_def toLower_def lowerChar_def)

text \<open>
  Claim C5 does not hold of the code. In the latest version of
  \<open>LoopbackRecorder.Start\<close> the loop returns \<open>nil\<close> at the first monitor device that
  starts, and the assignment \<open>lr.recording = true\<close> stands after the final \<open>return\<close>
  of the function, where it is never reached. With one monitor device that initialises
  and starts, \<open>Start\<close> succeeds and leaves \<open>recording\<close> false: the callback then drops
  the samples it is given and \<open>Stop\<close> fails with \<open>NotRecording\<close>. The earlier version
  of the function in the same file sets the flag on the same input.
\<close>

theorem LoopbackRecorder_Start_success_leaves_inactive:
  "LoopbackRecorder_Start
     \<lparr>devicesResult = Some [\<lparr>devName = ''Speaker Monitor'', initOk = True, startOk = True\<rparr>],
      defaultDevice = \<lparr>devName = ''default'', initOk = True, startOk = True\<rparr>,
      sharedLoopVar = False, setModelError = (\<lambda>_. None)\<rparr>
     \<lparr>lr_device = None, lr_recording = False, lr_samples = []\<rparr>
   = (None, \<lparr>lr_device = Some \<lparr>devName = ''Speaker Monitor'', initOk = True, startOk = True\<rparr>,
             lr_recording = False, lr_samples = []\<rparr>) \<and>
   LoopbackRecorder_onRecvFrames
     \<lparr>lr_device = Some \<lparr>devName = ''Speaker Monitor'', initOk = True, startOk = True\<rparr>,
      lr_recording = False, lr_samples = []\<rparr> [] [0, 0, 128, 63] 1
   = Inr \<lparr>lr_device = Some \<lparr>devName = ''Speaker Monitor'', initOk = True, startOk = True\<rparr>,
          lr_recording = False, lr_samples = []\<rparr> \<and>
   LoopbackRecorder_Stop
     \<lparr>lr_device = Some \<lparr>devName = ''Speaker Monitor'', initOk = True, startOk = True\<rparr>,
      lr_recording = False, lr_samples = [] :: 32 word list\<rparr>
   = (Inl NotRecording,
      \<lparr>lr_device = Some \<lparr>devName = ''Speaker Monitor'', initOk = True, startOk = True\<rparr>,
       lr_recording = False, lr_samples = []\<rparr>) \<and>
   LoopbackRecorder_Start_v1
     \<lparr>devicesResult = Some [\<lparr>devName = ''Speaker Monitor'', initOk = True, startOk = True\<rparr>],
      defaultDevice = \<lparr>devName = ''default'', initOk = True, startOk = True\<rparr>,
      sharedLoopVar = False, setModelError = (\<lambda>_. None)\<rparr>
     \<lparr>lr_device = None, lr_recording = False, lr_samples = [] :: 32 word list\<rparr>
   = (None, \<lparr>lr_device = Some \<lparr>devName = ''Speaker Monitor'', initOk = True, startOk = True\<rparr>,
             lr_recording = True, lr_samples = []\<rparr>)"
  by (simp add: LoopbackRecorder_Start_def LoopbackRecorder_Start_v1_def monitorDevices_def
      monitor_name LoopbackRecorder_onRecvFrames_def LoopbackRecorder_Stop_def toLower_def
      lowerChar_def)

section \<open>Properties of the controller\<close>

lemma startRecording_error_sets_isRecording:
  assumes "\<not> isRecording app" and "startRecording env app = (Some e, app')"
  shows "isRecording app'"
  using assms
  by (auto simp: startRecording_def Let_def split: option.splits prod.splits)

text \<open>
  Claim C6 does not hold of the code. \<open>startRecording\<close> sets \<open>isRecording\<close> before it
  calls \<open>recorder.Start()\<close> and returns the error of that call without clearing the
  flag. With a microphone that fails to initialise, the command \<open>start\<close> answers with
  the error, the recorder itself is not recording, and the command \<open>status\<close> answers
  \<open>1\<close>.
\<close>

theorem startRecording_failure_keeps_isRecording:
  "handleCommand
     \<lparr>devicesResult = Some [], defaultDevice = \<lparr>devName = ''default'', initOk = False, startOk = False\<rparr>,
      sharedLoopVar = False, setModelError = (\<lambda>_. None)\<rparr>
     \<lparr>SampleRate = 16000,
      recorder = \<lparr>deviceName = None, device = None, recording = False, samples = []\<rparr>,
      loopbackRec = None, aecProc = None, vadProc = None,
      isRecording = False, isProcessing = False\<rparr> [''start'']
   = (''ERROR: failed to initialize device'',
      \<lparr>SampleRate = 16000,
       recorder = \<lparr>deviceName = None, device = None, recording = False, samples = []\<rparr>,
       loopbackRec = None, aecProc = None, vadProc = None,
       isRecording = True, isProcessing = False\<rparr>, None) \<and>
   handleCommand
     \<lparr>devicesResult = Some [], defaultDevice = \<lparr>devName = ''default'', initOk = False, startOk = False\<rparr>,
      sharedLoopVar = False, setModelError = (\<lambda>_. None)\<rparr>
     \<lparr>SampleRate = 16000,
      recorder = \<lparr>deviceName = None, device = None, recording = False, samples = []\<rparr>,
      loopbackRec = None, aecProc = None, vadProc = None,
      isRecording = True, isProcessing = False\<rparr> [''status'']
   = (''1'',
      \<lparr>SampleRate = 16000,
       recorder = \<lparr>deviceName = None, device = None, recording = False, samples = []\<rparr>,
       loopbackRec = None, aecProc = None, vadProc = None,
       isRecording = True, isProcessing = False\<rparr>, None)"
  by (simp add: handleCommand_def startRecording_def Recorder_Start_def select_device_def)


end
